theory Spec2Isabelle
  imports Complex_Main "HOL-Library.AList"
begin

section \<open>JavaScript numbers\<close>

text \<open>
  Every number of the application is a JavaScript Number, an IEEE-754 binary64 value.
  A finite value is represented by the rational it denotes; \<open>NaN\<close> and the two
  infinities are separate constructors. Negative zero is identified with zero (the
  program never divides by a computed zero of either sign other than in \<open>0 / 0\<close>),
  and exponent overflow and subnormal results are not modelled: all quotients and
  products below are of point sums and percentages, far inside the normal range.
\<close>

datatype jsnum = NaN | PosInf | NegInf | Fin rat

definition pow2 :: "int \<Rightarrow> rat" where
  "pow2 k = (if 0 \<le> k then 2 ^ nat k else 1 / 2 ^ nat (- k))"

text \<open>Number of binary digits of a positive integer (0 for \<open>n < 1\<close>).\<close>

function bit_length :: "int \<Rightarrow> int" where
  "bit_length n = (if n < 1 then 0 else 1 + bit_length (n div 2))"
  by pat_completeness auto
termination
  by (relation "measure nat") auto

declare bit_length.simps [simp del]

text \<open>
  \<open>ilog2 q\<close> is the binary exponent of \<open>q \<noteq> 0\<close>: the \<open>e\<close> with
  \<open>2^e \<le> |q| < 2^(e+1)\<close>. For \<open>|q| = a / b\<close> the difference of the bit lengths is
  either that exponent or one more than it.
\<close>

definition ilog2 :: "rat \<Rightarrow> int" where
  "ilog2 q = (let (a, b) = quotient_of \<bar>q\<bar>;
                  k = bit_length a - bit_length b
              in if pow2 k \<le> \<bar>q\<bar> then k else k - 1)"

definition round_half_even :: "rat \<Rightarrow> int" where
  "round_half_even x = (let f = \<lfloor>x\<rfloor>; d = x - of_int f
     in if d < 1 / 2 then f else if 1 / 2 < d then f + 1 else if even f then f else f + 1)"

text \<open>
  \<open>fl q\<close> is the binary64 value nearest to the exact result \<open>q\<close>: 53 significant
  bits, ties to the even significand. This is the rounding IEEE-754 prescribes for
  \<open>/\<close> and \<open>*\<close>.
\<close>

definition fl :: "rat \<Rightarrow> rat" where
  "fl q = (if q = 0 then 0
           else let u = pow2 (ilog2 q - 52) in of_int (round_half_even (q / u)) * u)"

text \<open>\<open>x / b\<close> for a finite, non-negative divisor \<open>b\<close>.\<close>

fun js_div :: "jsnum \<Rightarrow> rat \<Rightarrow> jsnum" where
  "js_div NaN b = NaN"
| "js_div PosInf b = PosInf"
| "js_div NegInf b = NegInf"
| "js_div (Fin a) b =
     (if b = 0 then (if a = 0 then NaN else if 0 < a then PosInf else NegInf)
      else Fin (fl (a / b)))"

text \<open>\<open>x + y\<close>.\<close>

fun js_add :: "jsnum \<Rightarrow> jsnum \<Rightarrow> jsnum" where
  "js_add NaN y = NaN"
| "js_add x NaN = NaN"
| "js_add PosInf NegInf = NaN"
| "js_add NegInf PosInf = NaN"
| "js_add PosInf y = PosInf"
| "js_add x PosInf = PosInf"
| "js_add NegInf y = NegInf"
| "js_add x NegInf = NegInf"
| "js_add (Fin a) (Fin b) = Fin (fl (a + b))"

text \<open>\<open>x * y\<close> for a finite right operand \<open>y\<close>.\<close>

fun js_mul :: "jsnum \<Rightarrow> rat \<Rightarrow> jsnum" where
  "js_mul NaN y = NaN"
| "js_mul PosInf y = (if 0 < y then PosInf else if y < 0 then NegInf else NaN)"
| "js_mul NegInf y = (if 0 < y then NegInf else if y < 0 then PosInf else NaN)"
| "js_mul (Fin a) y = Fin (fl (a * y))"

text \<open>
  \<open>Math.round\<close>: the integer closest to the argument, a tie going to the larger
  integer; \<open>NaN\<close> and the infinities are returned unchanged.
\<close>

fun Math_round :: "jsnum \<Rightarrow> jsnum" where
  "Math_round (Fin a) = Fin (of_int \<lfloor>a + 1 / 2\<rfloor>)"
| "Math_round x = x"

text \<open>\<open>Math.max(0, x)\<close> and \<open>Math.min(x, m)\<close> for a finite \<open>m\<close>.\<close>

fun Math_max0 :: "jsnum \<Rightarrow> jsnum" where
  "Math_max0 NaN = NaN"
| "Math_max0 PosInf = PosInf"
| "Math_max0 NegInf = Fin 0"
| "Math_max0 (Fin a) = Fin (max 0 a)"

fun Math_min :: "jsnum \<Rightarrow> rat \<Rightarrow> jsnum" where
  "Math_min NaN m = NaN"
| "Math_min PosInf m = Fin m"
| "Math_min NegInf m = NegInf"
| "Math_min (Fin a) m = Fin (min a m)"

text \<open>Truthiness of a number: \<open>0\<close> and \<open>NaN\<close> are falsy.\<close>

fun truthy :: "jsnum \<Rightarrow> bool" where
  "truthy NaN = False"
| "truthy (Fin a) = (a \<noteq> 0)"
| "truthy x = True"

text \<open>\<open>x >= y\<close>: false as soon as one side is \<open>NaN\<close>.\<close>

fun js_ge :: "jsnum \<Rightarrow> jsnum \<Rightarrow> bool" where
  "js_ge NaN y = False"
| "js_ge x NaN = False"
| "js_ge PosInf y = True"
| "js_ge x NegInf = True"
| "js_ge NegInf y = False"
| "js_ge x PosInf = False"
| "js_ge (Fin a) (Fin b) = (b \<le> a)"

section \<open>Exam documents\<close>

text \<open>
  A question as \<open>CreateExam\<close> stores it (\<open>imageUrl\<close> and \<open>explanation\<close> play no
  part in any operation below and are left out). \<open>correctAnswer\<close> is an option index
  and \<open>points\<close> a point value; both are naturals (the authoring form asks for at
  least one point, the document type does not), and sums of points are exact (they
  stay below \<open>2^53\<close>).
\<close>

record exam_question =
  question :: string
  options :: "string list"
  correctAnswer :: nat
  points :: nat

record exam =
  timeLimit :: nat
  isPublished :: bool
  shuffleQuestions :: bool
  allowReattempts :: bool
  questions :: "exam_question list"
  createdBy :: string

datatype js_error = TypeError

section \<open>Scoring at finalize\<close>

text \<open>
  \<open>const finalScore = Math.round((score / totalPoints) * 100)\<close>, the same expression
  in both \<open>handleSubmit\<close> functions.
\<close>

definition finalScore :: "nat \<Rightarrow> nat \<Rightarrow> jsnum" where
  "finalScore score totalPoints =
     Math_round (js_mul (js_div (Fin (of_nat score)) (of_nat totalPoints)) 100)"

text \<open>
  First TakeExam variant: \<open>answers\<close> is an object keyed by original question index
  (here the map from keys to values), and the loop runs over \<open>exam.questions\<close>:
  \<^verbatim>\<open>
  exam.questions.forEach((question, index) => {
    totalPoints += question.points;
    if (answers[index] === question.correctAnswer) { score += question.points; }
  });\<close>
  The accumulator is the pair \<open>(score, totalPoints)\<close>.
\<close>

fun forEach_score1 ::
  "(int \<rightharpoonup> nat) \<Rightarrow> exam_question list \<Rightarrow> nat \<Rightarrow> nat \<times> nat \<Rightarrow> nat \<times> nat" where
  "forEach_score1 ans [] index acc = acc"
| "forEach_score1 ans (q # qs) index (score, totalPoints) =
     forEach_score1 ans qs (Suc index)
       (if ans (int index) = Some (correctAnswer q) then score + points q else score,
        totalPoints + points q)"

definition score1 :: "exam \<Rightarrow> (int \<rightharpoonup> nat) \<Rightarrow> jsnum" where
  "score1 e ans = (let (score, totalPoints) = forEach_score1 ans (questions e) 0 (0, 0)
                   in finalScore score totalPoints)"

text \<open>
  Second TakeExam variant: \<open>answers\<close> is an array with one slot per question, \<open>-1\<close>
  for an unanswered one, and the loop runs over \<open>answers\<close>:
  \<^verbatim>\<open>
  answers.forEach((answer, index) => {
    const question = exam.questions[index];
    if (answer === question.correctAnswer) { score += question.points; }
    totalPoints += question.points;
  });\<close>
  Reading a field of \<open>exam.questions[index]\<close> beyond the end of the list throws.
\<close>

fun forEach_score2 ::
  "exam_question list \<Rightarrow> int list \<Rightarrow> nat \<Rightarrow> nat \<times> nat \<Rightarrow> js_error + nat \<times> nat" where
  "forEach_score2 qs [] index acc = Inr acc"
| "forEach_score2 qs (answer # as) index (score, totalPoints) =
     (if length qs \<le> index then Inl TypeError
      else let q = qs ! index
           in forEach_score2 qs as (Suc index)
                (if answer = int (correctAnswer q) then score + points q else score,
                 totalPoints + points q))"

definition score2 :: "exam \<Rightarrow> int list \<Rightarrow> js_error + jsnum" where
  "score2 e ans = (case forEach_score2 (questions e) ans 0 (0, 0) of
                     Inl err \<Rightarrow> Inl err
                   | Inr (score, totalPoints) \<Rightarrow> Inr (finalScore score totalPoints))"

text \<open>
  The specification's quantities, in its own words: \<open>earnedPoints\<close> sums the points of
  the questions whose recorded answer equals the correct option, \<open>totalPoints\<close> sums
  all points, and the score is \<open>round (100 * earnedPoints / totalPoints)\<close>, computed
  exactly. \<open>round\<close> takes a tie to the larger integer, as \<open>Math.round\<close> does.
\<close>

definition spec_earnedPoints :: "exam_question list \<Rightarrow> (int \<rightharpoonup> nat) \<Rightarrow> nat" where
  "spec_earnedPoints qs ans =
     sum_list (map (\<lambda>(i, q). if ans (int i) = Some (correctAnswer q) then points q else 0)
                   (enumerate 0 qs))"

definition spec_totalPoints :: "exam_question list \<Rightarrow> nat" where
  "spec_totalPoints qs = sum_list (map points qs)"

definition spec_score :: "exam_question list \<Rightarrow> (int \<rightharpoonup> nat) \<Rightarrow> int" where
  "spec_score qs ans =
     round (100 * rat_of_nat (spec_earnedPoints qs ans) / rat_of_nat (spec_totalPoints qs))"

text \<open>The answer array of the second variant, read as the map it stands for.\<close>

definition answers_of_array :: "int list \<Rightarrow> (int \<rightharpoonup> nat)" where
  "answers_of_array as i =
     (if 0 \<le> i \<and> nat i < length as \<and> 0 \<le> as ! nat i then Some (nat (as ! nat i)) else None)"

section \<open>The document store\<close>

text \<open>
  A Firestore collection is a list of documents with their ids, each id at most once.
  \<open>getDoc\<close> looks an id up, \<open>setDoc\<close> writes the document with the given id
  (replacing the one that has it), and \<open>addDoc\<close> writes a new document under an id
  that Firestore generates; the generated id is the parameter \<open>newId\<close>.
\<close>

type_synonym 'd collection = "(string \<times> 'd) list"

definition getDoc :: "'d collection \<Rightarrow> string \<Rightarrow> 'd option" where
  "getDoc c i = map_of c i"

definition setDoc :: "string \<Rightarrow> 'd \<Rightarrow> 'd collection \<Rightarrow> 'd collection" where
  "setDoc i d c = AList.update i d c"

definition addDoc :: "string \<Rightarrow> 'd \<Rightarrow> 'd collection \<Rightarrow> 'd collection" where
  "addDoc newId d c = c @ [(newId, d)]"

text \<open>
  The fields both variants write into a Submission (the two ISO timestamps are left
  out), then the fields only the first and only the second variant add. \<open>'a\<close> is the
  type of \<open>answers\<close> and \<open>'i\<close> the type of a question index.
\<close>

record ('a, 'i) submission =
  examId :: string
  studentId :: string
  teacherId :: string
  answers :: 'a
  score :: jsnum
  timeSpent :: int
  flaggedQuestions :: "'i list"
  bookmarkedQuestions :: "'i list"

record order_entry =
  shuffledIndex :: nat
  originalIndex :: int

record ('a, 'i) submission1 = "('a, 'i) submission" +
  questionOrder :: "order_entry list option"
  isAutoSubmitted :: bool
  completedQuestions :: nat
  totalQuestions :: nat

record ('a, 'i) submission2 = "('a, 'i) submission" +
  attemptNumber :: nat

section \<open>Shuffling\<close>

text \<open>
  Modelled from the spec: \<open>utils/shuffle\<close> (\<open>shuffleArray\<close>) is not among the sources.
  The specification has it compute a random permutation, once, at attempt start. The
  random choice is the parameter \<open>perm\<close>, a permutation of \<open>[0..<length xs]\<close>:
  position \<open>p\<close> of the result holds element \<open>perm ! p\<close> of the argument.
\<close>

definition shuffleArray :: "nat list \<Rightarrow> 'a list \<Rightarrow> 'a list" where
  "shuffleArray perm xs = map (\<lambda>i. xs ! i) perm"

text \<open>\<open>Array.prototype.findIndex\<close>: the first index whose element satisfies \<open>P\<close>, or \<open>-1\<close>.\<close>

fun findIndex :: "('a \<Rightarrow> bool) \<Rightarrow> 'a list \<Rightarrow> int" where
  "findIndex P [] = - 1"
| "findIndex P (x # xs) =
     (if P x then 0 else (let r = findIndex P xs in if r < 0 then - 1 else r + 1))"

datatype load_error = NotFound | NotPublished | AlreadyAttempted

section \<open>First TakeExam variant\<close>

text \<open>
  The component state (\<open>useState\<close>) of a loaded attempt. \<open>answers\<close> is an object; it
  is kept as the list of its properties, key and value. State that only drives the
  presentation (\<open>loading\<close>, \<open>currentQuestion\<close>, \<open>isTimerWarning\<close>, \<open>examStartTime\<close>) is
  left out.
\<close>

record state1 =
  exam1 :: exam
  answers1 :: "(int \<times> nat) list"
  timeLeft1 :: int
  submitting1 :: bool
  bookmarkedQuestions1 :: "int list"
  flaggedQuestions1 :: "int list"
  showConfirmSubmit1 :: bool
  shuffledQuestions1 :: "exam_question list"
  questionOrder1 :: "order_entry list"
  showTimeUpModal1 :: bool

text \<open>
  \<open>fetchExam\<close>: a missing exam navigates back to the dashboard; an existing one is
  entered whatever its publication flag and whatever submissions exist.
  \<^verbatim>\<open>
  if (examData.shuffleQuestions) {
    const shuffled = shuffleArray(examData.questions);
    const order = shuffled.map((q, index) => ({
      shuffledIndex: index,
      originalIndex: examData.questions.findIndex(origQ => origQ.question === q.question)
    }));
  } else { ... originalIndex: index ... }\<close>
\<close>

definition fetchExam1 :: "exam collection \<Rightarrow> string \<Rightarrow> nat list \<Rightarrow> load_error + state1" where
  "fetchExam1 exams eid perm =
     (case getDoc exams eid of
        None \<Rightarrow> Inl NotFound
      | Some examData \<Rightarrow>
          let shuffled = shuffleArray perm (questions examData)
          in Inr \<lparr>exam1 = examData, answers1 = [],
                  timeLeft1 = int (timeLimit examData) * 60,
                  submitting1 = False, bookmarkedQuestions1 = [], flaggedQuestions1 = [],
                  showConfirmSubmit1 = False,
                  shuffledQuestions1 =
                    (if shuffleQuestions examData then shuffled else questions examData),
                  questionOrder1 =
                    (if shuffleQuestions examData
                     then map (\<lambda>(index, q).
                            \<lparr>shuffledIndex = index,
                             originalIndex =
                               findIndex (\<lambda>origQ. question origQ = question q)
                                 (questions examData)\<rparr>)
                          (enumerate 0 shuffled)
                     else map (\<lambda>(index, q).
                            \<lparr>shuffledIndex = index, originalIndex = int index\<rparr>)
                          (enumerate 0 (questions examData))),
                  showTimeUpModal1 = False\<rparr>)"

text \<open>
  \<open>handleAnswer(questionIndex, answerIndex)\<close>: reading \<open>.originalIndex\<close> of a missing
  entry of \<open>questionOrder\<close> throws.
\<close>

definition handleAnswer1 :: "nat \<Rightarrow> nat \<Rightarrow> state1 \<Rightarrow> js_error + state1" where
  "handleAnswer1 questionIndex answerIndex s =
     (if length (questionOrder1 s) \<le> questionIndex then Inl TypeError
      else let oi = originalIndex (questionOrder1 s ! questionIndex)
           in Inr (s\<lparr>answers1 := AList.update oi answerIndex (answers1 s)\<rparr>))"

text \<open>
  A function component runs once per render, and every function it defines reads the
  state variables of that render. The handlers bound to buttons are those of the latest
  render. The interval callback is created by the effect, and the effect runs again only
  when \<open>timeLeft\<close> has changed (dependency list \<open>[timeLeft]\<close>); the \<open>handleTimeUp\<close> and
  \<open>handleSubmit\<close> it calls are therefore those of the render in which \<open>timeLeft\<close> took
  its present value. A running attempt is thus the latest state, the state of the
  render the pending interval belongs to (\<open>None\<close> when no interval is pending), the
  \<open>submissions\<close> collection, and the log of the \<open>setDoc\<close> calls made so far. State
  updates made in one event are applied together. The model covers the attempt from
  load until the first write completes and the component navigates away; store calls
  do not fail.
\<close>

record world1 =
  latest1 :: state1
  interval1 :: "state1 option"
  submissions1 :: "((int \<times> nat) list, int) submission1 collection"
  log1 :: "((int \<times> nat) list, int) submission1 list"

text \<open>
  The timer effect, run after a render in which \<open>timeLeft\<close> changed:
  \<open>if (timeLeft === null || timeLeft <= 0) return;\<close> and otherwise a new interval.
\<close>

definition effect1 :: "state1 \<Rightarrow> state1 option" where
  "effect1 s = (if timeLeft1 s \<le> 0 then None else Some s)"

definition start1 ::
  "((int \<times> nat) list, int) submission1 collection \<Rightarrow> state1 \<Rightarrow> world1" where
  "start1 subs s = \<lparr>latest1 = s, interval1 = effect1 s, submissions1 = subs, log1 = []\<rparr>"

text \<open>The document \<open>handleSubmit\<close> builds from the state of the render \<open>env\<close> it belongs to.\<close>

definition submissionData1 ::
  "string \<Rightarrow> string \<Rightarrow> state1 \<Rightarrow> ((int \<times> nat) list, int) submission1" where
  "submissionData1 eid uid env =
     \<lparr>examId = eid, studentId = uid, teacherId = createdBy (exam1 env),
      answers = answers1 env,
      score = score1 (exam1 env) (map_of (answers1 env)),
      timeSpent = int (timeLimit (exam1 env)) * 60 - timeLeft1 env,
      flaggedQuestions = flaggedQuestions1 env,
      bookmarkedQuestions = bookmarkedQuestions1 env,
      questionOrder =
        (if shuffleQuestions (exam1 env) then Some (questionOrder1 env) else None),
      isAutoSubmitted = (timeLeft1 env = 0),
      completedQuestions = length (answers1 env),
      totalQuestions = length (questions (exam1 env))\<rparr>"

text \<open>
  \<open>handleSubmit\<close> of render \<open>env\<close>: \<open>if (submitting) return; setSubmitting(true);\<close>
  then the score, the document and
  \<open>setDoc(doc(db, 'submissions', `${uid}_${examId}`), submissionData)\<close>.
\<close>

definition handleSubmit1 :: "string \<Rightarrow> string \<Rightarrow> state1 \<Rightarrow> world1 \<Rightarrow> world1" where
  "handleSubmit1 eid uid env w =
     (if submitting1 env then w
      else let d = submissionData1 eid uid env
           in w\<lparr>latest1 := (latest1 w)\<lparr>submitting1 := True\<rparr>,
                submissions1 := setDoc (uid @ ''_'' @ eid) d (submissions1 w),
                log1 := log1 w @ [d]\<rparr>)"

text \<open>\<open>handleTimeUp\<close>: \<open>setShowTimeUpModal(true); await handleSubmit();\<close>\<close>

definition handleTimeUp1 :: "string \<Rightarrow> string \<Rightarrow> state1 \<Rightarrow> world1 \<Rightarrow> world1" where
  "handleTimeUp1 eid uid env w =
     handleSubmit1 eid uid env (w\<lparr>latest1 := (latest1 w)\<lparr>showTimeUpModal1 := True\<rparr>\<rparr>)"

text \<open>
  The interval fires:
  \<^verbatim>\<open>
  setTimeLeft((prev) => {
    if (prev <= 1) { clearInterval(timer); handleTimeUp(); return 0; }
    return prev - 1;
  });\<close>
  \<open>prev\<close> is the latest \<open>timeLeft\<close>; \<open>handleTimeUp\<close> is the one of the interval's
  render. The new \<open>timeLeft\<close> causes a render, after which the effect runs again.
\<close>

definition tick1 :: "string \<Rightarrow> string \<Rightarrow> world1 \<Rightarrow> world1" where
  "tick1 eid uid w =
     (case interval1 w of
        None \<Rightarrow> w
      | Some env \<Rightarrow>
          let prev = timeLeft1 (latest1 w);
              w' = (if prev \<le> 1 then handleTimeUp1 eid uid env w else w);
              s' = (latest1 w')\<lparr>timeLeft1 := (if prev \<le> 1 then 0 else prev - 1)\<rparr>
          in w'\<lparr>latest1 := s', interval1 := effect1 s'\<rparr>)"

primrec ticks1 :: "nat \<Rightarrow> string \<Rightarrow> string \<Rightarrow> world1 \<Rightarrow> world1" where
  "ticks1 0 eid uid w = w"
| "ticks1 (Suc n) eid uid w = ticks1 n eid uid (tick1 eid uid w)"

text \<open>
  The student's clicks, served by the handlers of the latest render: an option of the
  question shown at a presentation position, the Submit button
  (\<open>setShowConfirmSubmit(true)\<close>, disabled while \<open>submitting\<close>), and the Confirm button of
  the dialog (\<open>onClick={handleSubmit}\<close>, disabled while \<open>submitting\<close>).
\<close>

definition clickOption1 :: "nat \<Rightarrow> nat \<Rightarrow> world1 \<Rightarrow> world1" where
  "clickOption1 questionIndex answerIndex w =
     (case handleAnswer1 questionIndex answerIndex (latest1 w) of
        Inl err \<Rightarrow> w
      | Inr s \<Rightarrow> w\<lparr>latest1 := s\<rparr>)"

definition clickSubmit1 :: "world1 \<Rightarrow> world1" where
  "clickSubmit1 w =
     (if submitting1 (latest1 w) then w
      else w\<lparr>latest1 := (latest1 w)\<lparr>showConfirmSubmit1 := True\<rparr>\<rparr>)"

definition clickConfirm1 :: "string \<Rightarrow> string \<Rightarrow> world1 \<Rightarrow> world1" where
  "clickConfirm1 eid uid w =
     (if showConfirmSubmit1 (latest1 w) \<and> \<not> submitting1 (latest1 w)
      then handleSubmit1 eid uid (latest1 w) w else w)"

section \<open>Second TakeExam variant\<close>

text \<open>
  Here \<open>answers\<close> is an array (\<open>-1\<close> = unanswered) and \<open>questionOrder\<close> an array of
  original indices.
\<close>

record state2 =
  exam2 :: exam
  answers2 :: "int list"
  timeLeft2 :: int
  bookmarkedQuestions2 :: "nat list"
  flaggedQuestions2 :: "nat list"
  questionOrder2 :: "nat list"
  attemptNumber2 :: nat
  showConfirmSubmit2 :: bool
  showTimeUpModal2 :: bool
  shuffledQuestions2 :: "exam_question list"

text \<open>
  \<open>fetchExam\<close>: \<open>'Exam not found'\<close>, \<open>'This exam is not available'\<close> and
  \<open>'You have already attempted this exam'\<close> are the three refusals; the number of
  attempts is the size of the query on \<open>examId\<close> and \<open>studentId\<close>.
  \<^verbatim>\<open>
  if (examData.shuffleQuestions) {
    order = shuffleArray([...Array(questions.length).keys()]);
    const shuffled = order.map(index => questions[index]);
  } else { order = [...Array(questions.length).keys()]; }
  setAnswers(new Array(questions.length).fill(-1));\<close>
\<close>

definition fetchExam2 ::
  "exam collection \<Rightarrow> ('a, 'i, 'z) submission_scheme collection \<Rightarrow> string \<Rightarrow> string \<Rightarrow> nat list
     \<Rightarrow> load_error + state2" where
  "fetchExam2 exams subs eid uid perm =
     (case getDoc exams eid of
        None \<Rightarrow> Inl NotFound
      | Some examData \<Rightarrow>
          if \<not> isPublished examData then Inl NotPublished
          else let attempts =
                     length (filter (\<lambda>(i, d). examId d = eid \<and> studentId d = uid) subs)
               in if 0 < attempts \<and> \<not> allowReattempts examData then Inl AlreadyAttempted
                  else let qs = questions examData;
                           order = (if shuffleQuestions examData
                                    then shuffleArray perm [0..<length qs]
                                    else [0..<length qs])
                       in Inr \<lparr>exam2 = examData,
                               answers2 = replicate (length qs) (- 1),
                               timeLeft2 = int (timeLimit examData) * 60,
                               bookmarkedQuestions2 = [], flaggedQuestions2 = [],
                               questionOrder2 = order,
                               attemptNumber2 = attempts + 1,
                               showConfirmSubmit2 = False, showTimeUpModal2 = False,
                               shuffledQuestions2 =
                                 (if shuffleQuestions examData
                                  then map (\<lambda>index. qs ! index) order else qs)\<rparr>)"

text \<open>
  \<open>handleAnswer\<close>: \<open>newAnswers[questionOrder[questionIndex]] = answerIndex\<close>. The
  entries of \<open>questionOrder\<close> are indices of \<open>answers\<close>; a \<open>questionIndex\<close> outside
  \<open>questionOrder\<close> only sets the property \<open>"undefined"\<close> and leaves every slot as it was.
\<close>

definition handleAnswer2 :: "nat \<Rightarrow> nat \<Rightarrow> state2 \<Rightarrow> state2" where
  "handleAnswer2 questionIndex answerIndex s =
     (if length (questionOrder2 s) \<le> questionIndex then s
      else s\<lparr>answers2 := (answers2 s)[questionOrder2 s ! questionIndex := int answerIndex]\<rparr>)"

record world2 =
  latest2 :: state2
  interval2 :: "state2 option"
  submissions2 :: "(int list, nat) submission2 collection"
  log2 :: "(int list, nat) submission2 list"

text \<open>The timer effect (dependencies \<open>[timeLeft, exam]\<close>): \<open>if (!timeLeft || !exam) return;\<close>\<close>

definition effect2 :: "state2 \<Rightarrow> state2 option" where
  "effect2 s = (if timeLeft2 s = 0 then None else Some s)"

definition start2 :: "(int list, nat) submission2 collection \<Rightarrow> state2 \<Rightarrow> world2" where
  "start2 subs s = \<lparr>latest2 = s, interval2 = effect2 s, submissions2 = subs, log2 = []\<rparr>"

definition submissionData2 ::
  "string \<Rightarrow> string \<Rightarrow> state2 \<Rightarrow> jsnum \<Rightarrow> (int list, nat) submission2" where
  "submissionData2 eid uid env sc =
     \<lparr>examId = eid, studentId = uid, teacherId = createdBy (exam2 env),
      answers = answers2 env, score = sc,
      timeSpent = int (timeLimit (exam2 env)) * 60 - timeLeft2 env,
      flaggedQuestions = flaggedQuestions2 env,
      bookmarkedQuestions = bookmarkedQuestions2 env,
      attemptNumber = attemptNumber2 env\<rparr>"

text \<open>
  \<open>handleSubmit\<close> of render \<open>env\<close>: there is no \<open>submitting\<close> state in this variant.
  After \<open>if (!exam) return;\<close> (the exam of a loaded attempt is never null) it computes
  the score and calls \<open>addDoc(collection(db, 'submissions'), submissionData)\<close>; an
  exception in the loop is caught and nothing is written.
\<close>

definition handleSubmit2 :: "string \<Rightarrow> string \<Rightarrow> string \<Rightarrow> state2 \<Rightarrow> world2 \<Rightarrow> world2" where
  "handleSubmit2 eid uid newId env w =
     (case score2 (exam2 env) (answers2 env) of
        Inl err \<Rightarrow> w
      | Inr sc \<Rightarrow>
          let d = submissionData2 eid uid env sc
          in w\<lparr>submissions2 := addDoc newId d (submissions2 w), log2 := log2 w @ [d]\<rparr>)"

definition handleTimeUp2 :: "string \<Rightarrow> string \<Rightarrow> string \<Rightarrow> state2 \<Rightarrow> world2 \<Rightarrow> world2" where
  "handleTimeUp2 eid uid newId env w =
     handleSubmit2 eid uid newId env (w\<lparr>latest2 := (latest2 w)\<lparr>showTimeUpModal2 := True\<rparr>\<rparr>)"

text \<open>The interval fires; the callback is the one of the first variant.\<close>

definition tick2 :: "string \<Rightarrow> string \<Rightarrow> string \<Rightarrow> world2 \<Rightarrow> world2" where
  "tick2 eid uid newId w =
     (case interval2 w of
        None \<Rightarrow> w
      | Some env \<Rightarrow>
          let prev = timeLeft2 (latest2 w);
              w' = (if prev \<le> 1 then handleTimeUp2 eid uid newId env w else w);
              s' = (latest2 w')\<lparr>timeLeft2 := (if prev \<le> 1 then 0 else prev - 1)\<rparr>
          in w'\<lparr>latest2 := s', interval2 := effect2 s'\<rparr>)"

primrec ticks2 :: "nat \<Rightarrow> string \<Rightarrow> string \<Rightarrow> string \<Rightarrow> world2 \<Rightarrow> world2" where
  "ticks2 0 eid uid newId w = w"
| "ticks2 (Suc n) eid uid newId w = ticks2 n eid uid newId (tick2 eid uid newId w)"

text \<open>
  The clicks. Both submit buttons are disabled only while
  \<open>answers.length !== exam.questions.length\<close>.
\<close>

definition clickOption2 :: "nat \<Rightarrow> nat \<Rightarrow> world2 \<Rightarrow> world2" where
  "clickOption2 questionIndex answerIndex w =
     w\<lparr>latest2 := handleAnswer2 questionIndex answerIndex (latest2 w)\<rparr>"

definition clickSubmit2 :: "world2 \<Rightarrow> world2" where
  "clickSubmit2 w =
     (if length (answers2 (latest2 w)) \<noteq> length (questions (exam2 (latest2 w))) then w
      else w\<lparr>latest2 := (latest2 w)\<lparr>showConfirmSubmit2 := True\<rparr>\<rparr>)"

definition clickConfirm2 :: "string \<Rightarrow> string \<Rightarrow> string \<Rightarrow> world2 \<Rightarrow> world2" where
  "clickConfirm2 eid uid newId w =
     (if showConfirmSubmit2 (latest2 w)
         \<and> length (answers2 (latest2 w)) = length (questions (exam2 (latest2 w)))
      then handleSubmit2 eid uid newId (latest2 w) w else w)"

section \<open>Passed or failed\<close>

text \<open>
  \<open>ExamHistory\<close> and \<open>MyResults\<close> show
  \<open>score >= (exam.passingScore || 60) ? 'Passed' : 'Failed'\<close>. The passing score is
  \<open>None\<close> when the exam document has none (\<open>undefined\<close>).
\<close>

definition or_default :: "jsnum option \<Rightarrow> jsnum \<Rightarrow> jsnum" where
  "or_default x d = (case x of None \<Rightarrow> d | Some v \<Rightarrow> if truthy v then v else d)"

definition classification :: "jsnum \<Rightarrow> jsnum option \<Rightarrow> string" where
  "classification sc passingScore =
     (if js_ge sc (or_default passingScore (Fin 60)) then ''Passed'' else ''Failed'')"

text \<open>
  The submission filter of \<open>ViewSubmissions\<close> compares with the passing score itself:
  \<open>filterStatus === 'passed' && sub.score >= examGroup.exam.passingScore\<close>.
\<close>

definition matches_passed :: "jsnum \<Rightarrow> jsnum \<Rightarrow> bool" where
  "matches_passed sc passingScore = js_ge sc passingScore"

section \<open>Exam authoring\<close>

text \<open>
  The form state of \<open>CreateExam\<close>. Text and number inputs hold strings; the empty
  string is the only falsy one. \<open>String.prototype.trim\<close> removes white space at both
  ends (the ASCII white space characters, on the byte strings used here).
\<close>

record form_question =
  fq_question :: string
  fq_options :: "string list"
  fq_correctAnswer :: string
  fq_points :: string

record examData =
  ed_title :: string
  ed_description :: string
  ed_timeLimit :: string
  ed_passingScore :: string
  ed_isPublished :: bool
  ed_shuffleQuestions :: bool
  ed_allowReattempts :: bool
  ed_questions :: "form_question list"

definition is_space :: "char \<Rightarrow> bool" where
  "is_space c = (c \<in> set [CHR '' '', CHR 0x09, CHR 0x0A, CHR 0x0B, CHR 0x0C, CHR 0x0D])"

definition trim :: "string \<Rightarrow> string" where
  "trim s = rev (dropWhile is_space (rev (dropWhile is_space s)))"

datatype toast =
    NotLoggedIn
  | RequiredFields
  | NoQuestions
  | QuestionTextRequired nat
  | OptionsMustBeFilled nat
  | Created

text \<open>
  The validation loop, with its two early returns; the number in the message is
  \<open>i + 1\<close>.
  \<^verbatim>\<open>
  for (let i = 0; i < examData.questions.length; i++) {
    const question = examData.questions[i];
    if (!question.question.trim()) { toast.error(`Question ${i + 1} text is required`); return; }
    if (question.options.some(opt => !opt.trim())) {
      toast.error(`All options in Question ${i + 1} must be filled`); return; }
  }\<close>
\<close>

fun validate_questions :: "nat \<Rightarrow> form_question list \<Rightarrow> toast option" where
  "validate_questions i [] = None"
| "validate_questions i (q # qs) =
     (if trim (fq_question q) = [] then Some (QuestionTextRequired (i + 1))
      else if list_ex (\<lambda>opt. trim opt = []) (fq_options q)
           then Some (OptionsMustBeFilled (i + 1))
      else validate_questions (i + 1) qs)"

text \<open>
  The document passed to \<open>addDoc\<close>. Strings are trimmed as the source does; the fields
  the source converts with \<open>Number(...)\<close> are kept as the strings it converts.
\<close>

record examToSubmit =
  es_title :: string
  es_description :: string
  es_timeLimit :: string
  es_passingScore :: string
  es_isPublished :: bool
  es_shuffleQuestions :: bool
  es_allowReattempts :: bool
  es_questions :: "form_question list"
  es_createdBy :: string

definition processed :: "string \<Rightarrow> examData \<Rightarrow> examToSubmit" where
  "processed uid f =
     \<lparr>es_title = trim (ed_title f), es_description = trim (ed_description f),
      es_timeLimit = ed_timeLimit f, es_passingScore = ed_passingScore f,
      es_isPublished = ed_isPublished f, es_shuffleQuestions = ed_shuffleQuestions f,
      es_allowReattempts = ed_allowReattempts f,
      es_questions =
        map (\<lambda>q. q\<lparr>fq_question := trim (fq_question q),
                     fq_options := map trim (fq_options q)\<rparr>) (ed_questions f),
      es_createdBy = uid\<rparr>"

text \<open>
  \<open>handleSubmit\<close> of \<open>CreateExam\<close>: the signed-in user (\<open>auth.currentUser\<close>), the form,
  the id Firestore would generate and the \<open>exams\<close> collection go in; the toast shown
  and the collection afterwards come out. The checks come first, each with its
  \<open>return\<close>; \<open>addDoc\<close> is the last step, and it does not fail here.
\<close>

definition createExam ::
  "string option \<Rightarrow> examData \<Rightarrow> string \<Rightarrow> examToSubmit collection
     \<Rightarrow> toast \<times> examToSubmit collection" where
  "createExam currentUser f newId exams =
     (case currentUser of
        None \<Rightarrow> (NotLoggedIn, exams)
      | Some uid \<Rightarrow>
          if ed_title f = [] \<or> ed_timeLimit f = [] \<or> ed_passingScore f = []
          then (RequiredFields, exams)
          else if ed_questions f = [] then (NoQuestions, exams)
          else (case validate_questions 0 (ed_questions f) of
                  Some err \<Rightarrow> (err, exams)
                | None \<Rightarrow> (Created, addDoc newId (processed uid f) exams)))"

section \<open>Grading by the teacher\<close>

text \<open>
  An entry of \<open>gradedQuestions\<close> of a submission under review (\<open>type\<close>, \<open>score\<close>,
  \<open>maxPoints\<close>), and the teacher's \<open>subjectiveGrades\<close>, an object keyed by question
  index.
\<close>

record graded_question =
  gq_type :: string
  gq_score :: jsnum
  maxPoints :: nat

text \<open>
  \<open>handleGradeChange(questionIndex, score)\<close> stores
  \<open>Math.min(Math.max(0, Number(score)), gradedQuestions[questionIndex].maxPoints)\<close>.
  The argument \<open>x\<close> is the value of \<open>Number(score)\<close>, any number including \<open>NaN\<close>.
  Reading \<open>maxPoints\<close> of a missing entry throws.
\<close>

definition handleGradeChange ::
  "graded_question list \<Rightarrow> nat \<Rightarrow> jsnum \<Rightarrow> (nat \<rightharpoonup> jsnum) \<Rightarrow> js_error + (nat \<rightharpoonup> jsnum)" where
  "handleGradeChange gradedQuestions questionIndex x subjectiveGrades =
     (if length gradedQuestions \<le> questionIndex then Inl TypeError
      else Inr (subjectiveGrades(questionIndex \<mapsto>
                  Math_min (Math_max0 x)
                    (of_nat (maxPoints (gradedQuestions ! questionIndex))))))"

text \<open>\<open>grades[index] || 0\<close>\<close>

definition grade_or_0 :: "(nat \<rightharpoonup> jsnum) \<Rightarrow> nat \<Rightarrow> jsnum" where
  "grade_or_0 grades index = or_default (grades index) (Fin 0)"

text \<open>
  \<open>calculateFinalScore(submission, grades)\<close>:
  \<^verbatim>\<open>
  submission.gradedQuestions.forEach((question, index) => {
    if (question.type === 'objective') {
      totalScore += question.score; totalPoints += question.maxPoints;
    } else {
      const subjectiveScore = grades[index] || 0;
      totalScore += subjectiveScore; totalPoints += question.maxPoints;
    }
  });
  return totalPoints > 0 ? Math.round((totalScore / totalPoints) * 100) : 0;\<close>
\<close>

fun forEach_graded ::
  "(nat \<rightharpoonup> jsnum) \<Rightarrow> graded_question list \<Rightarrow> nat \<Rightarrow> jsnum \<times> nat \<Rightarrow> jsnum \<times> nat" where
  "forEach_graded grades [] index acc = acc"
| "forEach_graded grades (q # qs) index (totalScore, totalPoints) =
     forEach_graded grades qs (Suc index)
       (if gq_type q = ''objective''
        then (js_add totalScore (gq_score q), totalPoints + maxPoints q)
        else (js_add totalScore (grade_or_0 grades index), totalPoints + maxPoints q))"

definition calculateFinalScore :: "graded_question list \<Rightarrow> (nat \<rightharpoonup> jsnum) \<Rightarrow> jsnum" where
  "calculateFinalScore gradedQuestions grades =
     (let (totalScore, totalPoints) = forEach_graded grades gradedQuestions 0 (Fin 0, 0)
      in if 0 < totalPoints
         then Math_round (js_mul (js_div totalScore (of_nat totalPoints)) 100)
         else Fin 0)"

text \<open>
  \<open>handleSubmitGrades\<close> records, for every question,
  \<open>score: question.type === 'subjective' ? (subjectiveGrades[index] || 0) : question.score\<close>.
\<close>

definition updatedQuestions ::
  "graded_question list \<Rightarrow> (nat \<rightharpoonup> jsnum) \<Rightarrow> graded_question list" where
  "updatedQuestions gradedQuestions subjectiveGrades =
     map (\<lambda>(index, q).
            q\<lparr>gq_score := (if gq_type q = ''subjective''
                            then grade_or_0 subjectiveGrades index else gq_score q)\<rparr>)
         (enumerate 0 gradedQuestions)"

text \<open>A recorded grade lies in the closed interval from \<open>0\<close> to \<open>m\<close>.\<close>

definition in_range :: "jsnum \<Rightarrow> nat \<Rightarrow> bool" where
  "in_range v m = (case v of Fin r \<Rightarrow> 0 \<le> r \<and> r \<le> of_nat m | _ \<Rightarrow> False)"

section \<open>Attempts\<close>

text \<open>
  Entering an attempt: the load, and on success the running attempt with the timer
  effect of the first render after it.
\<close>

definition enter1 ::
  "exam collection \<Rightarrow> ((int \<times> nat) list, int) submission1 collection \<Rightarrow> string \<Rightarrow> nat list
     \<Rightarrow> load_error + world1" where
  "enter1 exams subs eid perm = map_sum id (start1 subs) (fetchExam1 exams eid perm)"

definition enter2 ::
  "exam collection \<Rightarrow> (int list, nat) submission2 collection \<Rightarrow> string \<Rightarrow> string \<Rightarrow> nat list
     \<Rightarrow> load_error + world2" where
  "enter2 exams subs eid uid perm =
     map_sum id (start2 subs) (fetchExam2 exams subs eid uid perm)"

text \<open>The exams, answers and documents the theorems below are evaluated on.\<close>

definition mk_question :: "string \<Rightarrow> nat \<Rightarrow> nat \<Rightarrow> exam_question" where
  "mk_question t c p = \<lparr>question = t, options = [''a'', ''b''], correctAnswer = c, points = p\<rparr>"

definition mk_exam :: "bool \<Rightarrow> bool \<Rightarrow> exam_question list \<Rightarrow> exam" where
  "mk_exam published shuffle qs =
     \<lparr>timeLimit = 1, isPublished = published, shuffleQuestions = shuffle,
      allowReattempts = False, questions = qs, createdBy = ''teacher''\<rparr>"

definition exam40 :: exam where
  "exam40 = mk_exam True False (replicate 40 (mk_question ''Q'' 0 1))"

definition answered_23 :: "(int \<times> nat) list" where
  "answered_23 = map (\<lambda>i. (int i, 0)) [0..<23]"

definition exam_same_text :: exam where
  "exam_same_text = mk_exam True True [mk_question ''Same'' 0 1, mk_question ''Same'' 1 1]"

definition exam_zero_points :: exam where
  "exam_zero_points = mk_exam True False [mk_question ''Q'' 0 0]"

definition exam_unpublished :: exam where
  "exam_unpublished = mk_exam False False [mk_question ''Q'' 0 1]"

definition exam_one_question :: exam where
  "exam_one_question = mk_exam True False [mk_question ''Q'' 0 1]"

definition exam_reattempts :: exam where
  "exam_reattempts = (mk_exam True False [mk_question ''Q'' 0 1])\<lparr>allowReattempts := True\<rparr>"

definition earlier_submission :: "(int list, nat) submission2" where
  "earlier_submission =
     \<lparr>examId = ''e'', studentId = ''u'', teacherId = ''teacher'', answers = [0],
      score = Fin 100, timeSpent = 10, flaggedQuestions = [], bookmarkedQuestions = [],
      attemptNumber = 1\<rparr>"

text \<open>
  Two attempts of one student at one exam that allows reattempts
  (\<open>allowReattempts = true\<close>): the first answers the question correctly, the second,
  entered with the collection the first one left, answers it wrongly. Once in the
  first variant, once in the second.
\<close>

definition first_attempt1 :: "load_error + world1" where
  "first_attempt1 =
     map_sum id (\<lambda>w. clickConfirm1 ''e'' ''u'' (clickSubmit1 (clickOption1 0 0 w)))
       (enter1 [(''e'', exam_reattempts)] [] ''e'' [])"

definition second_attempt1 :: "load_error + world1" where
  "second_attempt1 =
     (case first_attempt1 of
        Inl err \<Rightarrow> Inl err
      | Inr w1 \<Rightarrow>
          map_sum id (\<lambda>w. clickConfirm1 ''e'' ''u'' (clickSubmit1 (clickOption1 0 1 w)))
            (enter1 [(''e'', exam_reattempts)] (submissions1 w1) ''e'' []))"

definition first_attempt2 :: "load_error + world2" where
  "first_attempt2 =
     map_sum id (\<lambda>w. clickConfirm2 ''e'' ''u'' ''s1'' (clickSubmit2 (clickOption2 0 0 w)))
       (enter2 [(''e'', exam_reattempts)] [] ''e'' ''u'' [])"

definition second_attempt2 :: "load_error + world2" where
  "second_attempt2 =
     (case first_attempt2 of
        Inl err \<Rightarrow> Inl err
      | Inr w1 \<Rightarrow>
          map_sum id
            (\<lambda>w. clickConfirm2 ''e'' ''u'' ''s2'' (clickSubmit2 (clickOption2 0 1 w)))
            (enter2 [(''e'', exam_reattempts)] (submissions2 w1) ''e'' ''u'' []))"

text \<open>
  A second attempt of the second variant, entered after \<open>earlier_submission\<close>, and a
  second attempt of the first variant, entered when the collection holds the student's
  first Submission and one of another student.
\<close>

definition earlier_submission1 :: "string \<Rightarrow> ((int \<times> nat) list, int) submission1" where
  "earlier_submission1 student =
     \<lparr>examId = ''e'', studentId = student, teacherId = ''teacher'', answers = [(0, 0)],
      score = Fin 100, timeSpent = 10, flaggedQuestions = [], bookmarkedQuestions = [],
      questionOrder = None, isAutoSubmitted = False, completedQuestions = 1,
      totalQuestions = 1\<rparr>"

definition state2_reattempt :: state2 where
  "state2_reattempt =
     \<lparr>exam2 = exam_reattempts, answers2 = [0], timeLeft2 = 30,
      bookmarkedQuestions2 = [], flaggedQuestions2 = [], questionOrder2 = [0],
      attemptNumber2 = 2, showConfirmSubmit2 = True, showTimeUpModal2 = False,
      shuffledQuestions2 = questions exam_reattempts\<rparr>"

definition world2_reattempt :: world2 where
  "world2_reattempt = start2 [(''s1'', earlier_submission)] state2_reattempt"

definition state1_reattempt :: state1 where
  "state1_reattempt =
     \<lparr>exam1 = exam_reattempts, answers1 = [(0, 1)], timeLeft1 = 30,
      submitting1 = False, bookmarkedQuestions1 = [], flaggedQuestions1 = [],
      showConfirmSubmit1 = True, shuffledQuestions1 = questions exam_reattempts,
      questionOrder1 = [\<lparr>shuffledIndex = 0, originalIndex = 0\<rparr>],
      showTimeUpModal1 = False\<rparr>"

definition world1_reattempt :: world1 where
  "world1_reattempt =
     start1 [(''v_e'', earlier_submission1 ''v''), (''u_e'', earlier_submission1 ''u'')]
       state1_reattempt"

text \<open>
  A form whose only question has an empty second option, and the graded questions of a
  submission: an objective one, and a subjective one worth up to 5 points.
\<close>

definition form_empty_option :: examData where
  "form_empty_option =
     \<lparr>ed_title = ''Algebra'', ed_description = [], ed_timeLimit = ''30'',
      ed_passingScore = ''60'', ed_isPublished = True, ed_shuffleQuestions = False,
      ed_allowReattempts = False,
      ed_questions = [\<lparr>fq_question = ''1 + 1?'', fq_options = [''2'', []],
                       fq_correctAnswer = ''0'', fq_points = ''1''\<rparr>]\<rparr>"

definition graded_sample :: "graded_question list" where
  "graded_sample =
     [\<lparr>gq_type = ''objective'', gq_score = Fin 2, maxPoints = 2\<rparr>,
      \<lparr>gq_type = ''subjective'', gq_score = Fin 0, maxPoints = 5\<rparr>]"

section \<open>Rounding to a double\<close>

text \<open>
  Two facts about \<open>fl\<close> are all the scoring needs: it keeps non-negative numbers
  non-negative, and it never rounds past an integer that is itself a double.
\<close>

lemma pow2_pos: "0 < pow2 k"
  by (simp add: pow2_def)

lemma pow2_power_int: "pow2 k = power_int 2 k"
  by (simp add: pow2_def power_int_def inverse_eq_divide power_one_over)

lemma pow2_add: "pow2 (a + b) = pow2 a * pow2 b"
  by (simp add: pow2_power_int power_int_add)

lemma pow2_nat: "pow2 (int n) = 2 ^ n"
  by (simp add: pow2_def)

lemma bit_length_bounds:
  "1 \<le> n \<Longrightarrow> \<exists>m. bit_length n = int (Suc m) \<and> 2 ^ m \<le> n \<and> n < 2 ^ Suc m"
proof (induction n rule: bit_length.induct)
  case (1 n)
  have nl: "\<not> n < 1" using 1(2) by simp
  have e: "bit_length n = 1 + bit_length (n div 2)"
    using nl by (subst bit_length.simps) simp
  show ?case
  proof (cases "n = 1")
    case True
    have "bit_length 0 = 0" by (subst bit_length.simps) simp
    then have "bit_length n = int (Suc 0)" using True e by simp
    then show ?thesis using True by auto
  next
    case False
    with 1(2) have h: "1 \<le> n div 2" by simp
    from 1(1) [OF nl h] obtain m where m: "bit_length (n div 2) = int (Suc m)"
      and lo: "(2::int) ^ m \<le> n div 2" and hi: "n div 2 < (2::int) ^ Suc m" by blast
    define A :: int where "A = 2 ^ m"
    have lo': "A \<le> n div 2" and hi': "n div 2 < 2 * A" using lo hi by (simp_all add: A_def)
    have "2 * A \<le> n" using lo' by linarith
    moreover have "n < 2 * (2 * A)" using hi' by linarith
    moreover have "bit_length n = int (Suc (Suc m))" using e m by simp
    ultimately have "bit_length n = int (Suc (Suc m)) \<and> 2 ^ Suc m \<le> n \<and> n < 2 ^ Suc (Suc m)"
      by (simp add: A_def)
    then show ?thesis by blast
  qed
qed

text \<open>The binary exponent brackets the number.\<close>

lemma ilog2_bounds:
  assumes "0 < q"
  shows "pow2 (ilog2 q) \<le> q \<and> q < pow2 (ilog2 q + 1)"
proof -
  obtain a b where ab: "quotient_of q = (a, b)" by (cases "quotient_of q")
  have b: "0 < b" using ab quotient_of_denom_pos by blast
  have q: "q = of_int a / of_int b" using ab by (rule quotient_of_div)
  have a: "0 < a" using assms b q by (simp add: zero_less_divide_iff)
  have absq: "\<bar>q\<bar> = q" using assms by simp
  obtain m where m: "bit_length a = int (Suc m)" and alo: "2 ^ m \<le> a" and ahi: "a < 2 ^ Suc m"
    using bit_length_bounds [of a] a by auto
  obtain k where k: "bit_length b = int (Suc k)" and blo: "2 ^ k \<le> b" and bhi: "b < 2 ^ Suc k"
    using bit_length_bounds [of b] b by auto
  let ?d = "int m - int k"
  have d: "bit_length a - bit_length b = ?d" using m k by simp
  have il: "ilog2 q = (if pow2 ?d \<le> q then ?d else ?d - 1)"
    using ab d absq by (simp add: ilog2_def Let_def)
  have ra: "(of_int a :: rat) < 2 ^ Suc m" using ahi
    by (metis of_int_less_iff of_int_numeral of_int_power)
  have ra': "(2 :: rat) ^ m \<le> of_int a" using alo
    by (metis of_int_le_iff of_int_numeral of_int_power)
  have rb: "(of_int b :: rat) < 2 ^ Suc k" using bhi
    by (metis of_int_less_iff of_int_numeral of_int_power)
  have rb': "(2 :: rat) ^ k \<le> of_int b" using blo
    by (metis of_int_le_iff of_int_numeral of_int_power)
  have bpos: "(0 :: rat) < of_int b" using b by simp
  have pm: "pow2 (int m) = 2 ^ m" and pk: "pow2 (int k) = 2 ^ k" by (simp_all add: pow2_nat)
  have split: "pow2 (int m) = pow2 ?d * pow2 (int k)"
    using pow2_add [of ?d "int k"] by simp
  \<comment> \<open>upper bound: \<open>q < pow2 (d + 1)\<close>\<close>
  have "of_int a < 2 * pow2 (int m)" using ra pm by simp
  also have "\<dots> = 2 * pow2 ?d * pow2 (int k)" using split by simp
  also have "\<dots> \<le> 2 * pow2 ?d * of_int b"
    using rb' pk pow2_pos [of ?d] by (simp add: mult_left_mono)
  finally have "of_int a / of_int b < 2 * pow2 ?d"
    using bpos by (simp add: pos_divide_less_eq)
  then have up: "q < pow2 (?d + 1)"
    using q pow2_add [of ?d 1] by (simp add: pow2_def [of 1] mult.commute)
  \<comment> \<open>lower bound: \<open>pow2 (d - 1) < q\<close>\<close>
  have "pow2 ?d * of_int b < pow2 ?d * (2 * pow2 (int k))"
    using rb pk pow2_pos [of ?d] by (simp add: mult_strict_left_mono)
  also have "\<dots> = 2 * pow2 (int m)" using split by simp
  also have "\<dots> \<le> 2 * of_int a" using ra' pm by simp
  finally have h1: "pow2 ?d / 2 < of_int a / of_int b"
    using bpos by (simp add: pos_less_divide_eq)
  have h2: "pow2 (?d - 1) = pow2 ?d / 2"
    using pow2_add [of "?d - 1" 1] by (simp add: pow2_def [of 1])
  have low: "pow2 (?d - 1) < q"
    by (subst h2, subst q) (rule h1)
  show ?thesis
  proof (cases "pow2 ?d \<le> q")
    case True
    then show ?thesis using il up by simp
  next
    case False
    then show ?thesis using il low by simp
  qed
qed


lemma round_half_even_le: "x \<le> of_int m \<Longrightarrow> round_half_even x \<le> m"
proof -
  assume h: "x \<le> of_int m"
  have f: "\<lfloor>x\<rfloor> \<le> m" using h by (simp add: floor_le_iff)
  have "x - of_int \<lfloor>x\<rfloor> \<noteq> 0 \<Longrightarrow> \<lfloor>x\<rfloor> + 1 \<le> m"
  proof -
    assume "x - of_int \<lfloor>x\<rfloor> \<noteq> 0"
    then have "of_int \<lfloor>x\<rfloor> < x" using of_int_floor_le [of x] by linarith
    then have "of_int \<lfloor>x\<rfloor> < (of_int m :: rat)" using h by linarith
    then show ?thesis by simp
  qed
  then show ?thesis using f by (auto simp: round_half_even_def Let_def)
qed

lemma round_half_even_nonneg: "0 \<le> x \<Longrightarrow> 0 \<le> round_half_even x"
  by (auto simp: round_half_even_def Let_def)

lemma fl_nonneg: "0 \<le> q \<Longrightarrow> 0 \<le> fl q"
  using pow2_pos less_imp_le
  by (auto simp: fl_def Let_def intro!: mult_nonneg_nonneg round_half_even_nonneg
        divide_nonneg_pos)

lemma pow2_le_imp: "pow2 e \<le> 2 ^ n \<Longrightarrow> e \<le> int n"
proof (rule ccontr)
  assume le: "pow2 e \<le> 2 ^ n" and "\<not> e \<le> int n"
  then have "Suc n \<le> nat e" and "0 \<le> e" by simp_all
  then have "(2 :: rat) ^ Suc n \<le> 2 ^ nat e" by (intro power_increasing) simp_all
  moreover have "pow2 e = 2 ^ nat e" using \<open>0 \<le> e\<close> by (simp add: pow2_def)
  ultimately have "(2 :: rat) ^ Suc n \<le> 2 ^ n" using le by (metis order_trans)
  then show False by simp
qed

text \<open>
  Rounding to a double does not step over an integer of at most 53 bits: such an
  integer is itself a double.
\<close>

lemma fl_le_int:
  assumes "0 \<le> q" and "q \<le> of_int N" and "N \<le> 2 ^ 52"
  shows "fl q \<le> of_int N"
proof (cases "q = 0")
  case True
  then show ?thesis using assms by (simp add: fl_def)
next
  case False
  then have pos: "0 < q" using assms(1) by simp
  let ?e = "ilog2 q"
  let ?u = "pow2 (?e - 52)"
  have "pow2 ?e \<le> q" using ilog2_bounds [OF pos] by simp
  also have "q \<le> of_int N" by (rule assms(2))
  also have "(of_int N :: rat) \<le> 2 ^ 52" using assms(3)
    by (metis of_int_le_iff of_int_numeral of_int_power)
  finally have e: "?e \<le> 52" using pow2_le_imp [of ?e 52] by simp
  let ?n = "N * 2 ^ nat (52 - ?e)"
  have "pow2 (52 - ?e) * ?u = 1"
    using pow2_add [of "52 - ?e" "?e - 52"] by (simp add: pow2_def [of 0])
  moreover have "pow2 (52 - ?e) = 2 ^ nat (52 - ?e)" using e by (simp add: pow2_def)
  ultimately have one: "2 ^ nat (52 - ?e) * ?u = 1" by simp
  have N: "of_int ?n * ?u = of_int N"
  proof -
    have "of_int ?n * ?u = of_int N * (2 ^ nat (52 - ?e) * ?u)" by simp
    then show ?thesis by (simp only: one mult_1_right)
  qed
  have upos: "0 < ?u" by (rule pow2_pos)
  have "q / ?u \<le> of_int ?n"
  proof -
    have "q \<le> of_int ?n * ?u" using assms(2) by (simp only: N)
    then show ?thesis using upos by (simp add: pos_divide_le_eq)
  qed
  then have "round_half_even (q / ?u) \<le> ?n" by (rule round_half_even_le)
  then have "(of_int (round_half_even (q / ?u)) :: rat) \<le> of_int ?n" by (simp only: of_int_le_iff)
  then have "of_int (round_half_even (q / ?u)) * ?u \<le> of_int ?n * ?u"
    using upos by (simp only: mult_le_cancel_right_pos)
  then have "of_int (round_half_even (q / ?u)) * ?u \<le> of_int N"
    by (simp only: N)
  moreover have "fl q = of_int (round_half_even (q / ?u)) * ?u"
    using False by (simp add: fl_def Let_def)
  ultimately show ?thesis by (simp only:)
qed

text \<open>
  With \<open>totalPoints > 0\<close> the stored score is an integer between 0 and 100, rounding
  errors or not.
\<close>

lemma finalScore_range:
  assumes "0 < t" and "s \<le> t"
  shows "\<exists>k. finalScore s t = Fin (of_int k) \<and> 0 \<le> k \<and> k \<le> 100"
proof -
  let ?q = "rat_of_nat s / rat_of_nat t"
  have q0: "0 \<le> ?q" by simp
  have q1: "?q \<le> of_int 1" using assms by (simp add: divide_le_eq_1)
  let ?x = "fl ?q"
  have x0: "0 \<le> ?x" using q0 by (rule fl_nonneg)
  have x1: "?x \<le> of_int 1" by (rule fl_le_int [OF q0 q1]) simp
  let ?y = "fl (?x * 100)"
  have y0: "0 \<le> ?y" using x0 by (intro fl_nonneg) simp
  have "?x * 100 \<le> of_int 100" using x1 by simp
  then have y1: "?y \<le> of_int 100" using x0 by (intro fl_le_int) simp_all
  have f: "finalScore s t = Fin (of_int \<lfloor>?y + 1 / 2\<rfloor>)"
    using assms(1) by (simp add: finalScore_def)
  have "0 \<le> \<lfloor>?y + 1 / 2\<rfloor>" using y0 by simp
  moreover have "\<lfloor>?y + 1 / 2\<rfloor> \<le> 100" using y1 by (simp add: floor_le_iff) 
  ultimately show ?thesis using f by blast
qed

section \<open>Scoring\<close>

text \<open>
  The loop of the first variant adds up exactly the specification's two sums, so the
  stored score is \<open>finalScore\<close> of \<open>earnedPoints\<close> and \<open>totalPoints\<close>.
\<close>

lemma forEach_score1_sums:
  "forEach_score1 ans qs i (s, t) =
     (s + sum_list (map (\<lambda>(j, q). if ans (int j) = Some (correctAnswer q) then points q else 0)
                        (enumerate i qs)),
      t + sum_list (map points qs))"
  by (induction qs arbitrary: i s t) simp_all

lemma score1_spec_sums:
  "score1 e ans = finalScore (spec_earnedPoints (questions e) ans) (spec_totalPoints (questions e))"
  by (simp add: score1_def forEach_score1_sums spec_earnedPoints_def spec_totalPoints_def)

lemma submissionData1_score:
  "score (submissionData1 eid uid env) = score1 (exam1 env) (map_of (answers1 env))"
  by (simp add: submissionData1_def)

lemma handleSubmit1_log:
  "\<not> submitting1 env \<Longrightarrow>
     log1 (handleSubmit1 eid uid env w) = log1 w @ [submissionData1 eid uid env]"
  by (simp add: handleSubmit1_def Let_def)

lemma handleSubmit2_log:
  "score2 (exam2 env) (answers2 env) = Inr sc \<Longrightarrow>
     log2 (handleSubmit2 eid uid newId env w) = log2 w @ [submissionData2 eid uid env sc]
     \<and> score (submissionData2 eid uid env sc) = sc"
  by (simp add: handleSubmit2_def submissionData2_def Let_def)

text \<open>
  The loop of the second variant does the same when \<open>answers\<close> has one slot per
  question, which \<open>fetchExam\<close> and \<open>handleAnswer\<close> maintain.
\<close>

lemma forEach_score2_sums:
  assumes "i + length as \<le> length qs"
  shows "forEach_score2 qs as i (s, t) =
     Inr (s + sum_list (map (\<lambda>(j, a). if a = int (correctAnswer (qs ! j)) then points (qs ! j) else 0)
                        (enumerate i as)),
          t + sum_list (map (\<lambda>j. points (qs ! j)) [i..<i + length as]))"
  using assms
proof (induction as arbitrary: i s t)
  case Nil
  then show ?case by simp
next
  case (Cons a as)
  have le: "Suc i + length as \<le> length qs" using Cons.prems by simp
  have lt: "\<not> length qs \<le> i" using Cons.prems by simp
  have up: "[i..<Suc (i + length as)] = i # [Suc i..<Suc (i + length as)]"
    by (subst upt_rec) simp
  show ?case
    using lt by (simp add: Cons.IH [OF le] Let_def up del: upt_Suc)
qed

lemma answers_of_array_eq:
  "j < length as \<Longrightarrow> (answers_of_array as (int j) = Some c) = (as ! j = int c)"
  by (auto simp: answers_of_array_def)

lemma score2_spec_sums:
  assumes "length as = length (questions e)"
  shows "score2 e as =
     Inr (finalScore (spec_earnedPoints (questions e) (answers_of_array as))
                     (spec_totalPoints (questions e)))"
proof -
  let ?qs = "questions e"
  have a: "sum_list (map (\<lambda>(j, a). if a = int (correctAnswer (?qs ! j)) then points (?qs ! j) else 0)
                        (enumerate 0 as))
         = sum_list (map (\<lambda>(j, q). if answers_of_array as (int j) = Some (correctAnswer q)
                                     then points q else 0) (enumerate 0 ?qs))"
    using assms
    by (intro arg_cong [where f = sum_list] nth_equalityI)
       (auto simp: nth_enumerate_eq answers_of_array_eq)
  have "map points ?qs = map points (map ((!) ?qs) [0..<length ?qs])"
    by (simp only: map_nth)
  also have "\<dots> = map (\<lambda>j. points (?qs ! j)) [0..<length ?qs]"
    by (simp add: comp_def)
  finally have b: "sum_list (map (\<lambda>j. points (?qs ! j)) [0..<length as])
                   = sum_list (map points ?qs)"
    using assms by simp
  show ?thesis
    using forEach_score2_sums [of 0 as ?qs 0 0] assms a b
    by (simp add: score2_def spec_earnedPoints_def spec_totalPoints_def)
qed

text \<open>
  No more points are earned than there are, so with \<open>totalPoints > 0\<close> the stored
  score of either variant is an integer between 0 and 100. This is for point values
  and correct options that are naturals, as the documents are typed here; a document
  holding a negative or non-numeric point value is outside these lemmas.
\<close>

lemma spec_earned_le_total: "spec_earnedPoints qs ans \<le> spec_totalPoints qs"
proof -
  have "sum_list (map (\<lambda>(j, q). if ans (int j) = Some (correctAnswer q) then points q else 0)
                      (enumerate i qs)) \<le> sum_list (map points qs)" for i
    by (induction qs arbitrary: i) (auto simp: add_le_mono)
  then show ?thesis by (simp add: spec_earnedPoints_def spec_totalPoints_def)
qed

lemma score1_range:
  assumes "0 < spec_totalPoints (questions e)"
  shows "\<exists>k. score1 e ans = Fin (of_int k) \<and> 0 \<le> k \<and> k \<le> 100"
  using finalScore_range [OF assms spec_earned_le_total [of "questions e" ans]]
  by (simp add: score1_spec_sums)

lemma score2_range:
  assumes "length as = length (questions e)" and "0 < spec_totalPoints (questions e)"
  shows "\<exists>k. score2 e as = Inr (Fin (of_int k)) \<and> 0 \<le> k \<and> k \<le> 100"
  using finalScore_range [OF assms(2) spec_earned_le_total [of "questions e" "answers_of_array as"]]
  by (simp add: score2_spec_sums [OF assms(1)])

text \<open>
  C1. Claim: for every exam with \<open>totalPoints > 0\<close> and every final answer state the
  stored score equals \<open>round (100 * earnedPoints / totalPoints)\<close>, in both finalize
  paths. On an exam of 40 one-point questions of which the first 23 are answered
  correctly, \<open>100 * 23 / 40 = 57.5\<close> rounds to 58, but both variants store 57: the
  quotient \<open>23 / 40\<close> is rounded to a double before it is multiplied by 100, and the
  product comes out just below 57.5.
\<close>

theorem C1_half_point_rounds_down:
  "score1 exam40 (map_of answered_23) = Fin 57
   \<and> score2 exam40 (replicate 23 0 @ replicate 17 (- 1)) = Inr (Fin 57)
   \<and> spec_score (questions exam40) (map_of answered_23) = 58
   \<and> spec_score (questions exam40)
        (answers_of_array (replicate 23 0 @ replicate 17 (- 1))) = 58"
  by code_simp

text \<open>
  With \<open>totalPoints = 0\<close> both finalize paths store \<open>NaN\<close>, on every such exam and
  whatever was answered, and the teacher's recomputation returns 0.
\<close>

lemma finalScore_0_0: "finalScore 0 0 = NaN"
  by (simp add: finalScore_def)

lemma score1_zero_total:
  assumes "spec_totalPoints (questions e) = 0"
  shows "score1 e ans = NaN"
proof -
  have "spec_earnedPoints (questions e) ans = 0"
    using spec_earned_le_total [of "questions e" ans] assms by simp
  then show ?thesis using assms by (simp add: score1_spec_sums finalScore_0_0)
qed

lemma score2_zero_total:
  assumes "length as = length (questions e)" and "spec_totalPoints (questions e) = 0"
  shows "score2 e as = Inr NaN"
proof -
  have "spec_earnedPoints (questions e) (answers_of_array as) = 0"
    using spec_earned_le_total [of "questions e" "answers_of_array as"] assms(2) by simp
  then show ?thesis
    using assms by (simp add: score2_spec_sums [OF assms(1)] finalScore_0_0)
qed

lemma forEach_graded_totalPoints:
  "snd (forEach_graded grades qs i (ts, tp)) = tp + sum_list (map maxPoints qs)"
  by (induction qs arbitrary: i ts tp) simp_all

lemma calculateFinalScore_zero_total:
  assumes "sum_list (map maxPoints gqs) = 0"
  shows "calculateFinalScore gqs grades = Fin 0"
proof -
  obtain ts tp where r: "forEach_graded grades gqs 0 (Fin 0, 0) = (ts, tp)"
    by (cases "forEach_graded grades gqs 0 (Fin 0, 0)")
  have "tp = 0"
    using forEach_graded_totalPoints [of grades gqs 0 "Fin 0" 0] assms r by simp
  then show ?thesis using r by (simp add: calculateFinalScore_def)
qed

text \<open>
  C3. Claim: with \<open>totalPoints = 0\<close> the score is 0 and nothing divides by zero, in both
  finalize paths and in the teacher's recomputation. On an exam whose only question
  is worth 0 points both finalize paths compute \<open>0 / 0\<close> and store \<open>NaN\<close>; only
  \<open>calculateFinalScore\<close> has the guard and returns 0.
\<close>

theorem C3_zero_points_NaN:
  "map_sum id (\<lambda>w. map score
                     (log1 (clickConfirm1 ''e'' ''u'' (clickSubmit1 (clickOption1 0 0 w)))))
     (enter1 [(''e'', exam_zero_points)] [] ''e'' []) = Inr [NaN]
   \<and> map_sum id (\<lambda>w. map score
                       (log2 (clickConfirm2 ''e'' ''u'' ''s1''
                               (clickSubmit2 (clickOption2 0 0 w)))))
       (enter2 [(''e'', exam_zero_points)] [] ''e'' ''u'' []) = Inr [NaN]
   \<and> calculateFinalScore [\<lparr>gq_type = ''objective'', gq_score = Fin 0, maxPoints = 0\<rparr>]
        Map.empty = Fin 0"
  by code_simp

section \<open>Shuffling and the answer keys\<close>

text \<open>
  What the two variants get right. In the second variant the key under which an answer
  is recorded is the original index of the question shown, for every outcome of the
  shuffle. In the first variant this holds when the question texts are pairwise
  different (and when the exam is not shuffled).
\<close>

lemma findIndex_nonneg_bound: "findIndex P xs < int (length xs) \<and> - 1 \<le> findIndex P xs"
  by (induction xs) (auto simp: Let_def)

lemma findIndex_distinct:
  assumes "distinct (map f xs)" and "i < length xs"
  shows "findIndex (\<lambda>x. f x = f (xs ! i)) xs = int i"
  using assms
proof (induction xs arbitrary: i)
  case Nil
  then show ?case by simp
next
  case (Cons x xs)
  show ?case
  proof (cases i)
    case 0
    then show ?thesis by simp
  next
    case (Suc j)
    then have j: "j < length xs" using Cons.prems(2) by simp
    have d: "distinct (map f xs)" using Cons.prems(1) by simp
    have "f (xs ! j) \<in> set (map f xs)" using j by simp
    then have ne: "f x \<noteq> f (xs ! j)" using Cons.prems(1) by auto
    have "findIndex (\<lambda>y. f y = f (xs ! j)) xs = int j" by (rule Cons.IH [OF d j])
    then show ?thesis using Suc ne by (simp add: Let_def)
  qed
qed

lemma fetchExam1_distinct_texts:
  assumes "fetchExam1 exams eid perm = Inr s"
    and "shuffleQuestions (exam1 s)"
    and "distinct (map question (questions (exam1 s)))"
    and "p < length perm" and "perm ! p < length (questions (exam1 s))"
  shows "originalIndex (questionOrder1 s ! p) = int (perm ! p)
         \<and> shuffledQuestions1 s ! p = questions (exam1 s) ! (perm ! p)"
  using assms findIndex_distinct [of question "questions (exam1 s)" "perm ! p"]
  by (auto simp: fetchExam1_def shuffleArray_def Let_def nth_enumerate_eq
        split: option.splits)

lemma fetchExam1_unshuffled:
  assumes "fetchExam1 exams eid perm = Inr s"
    and "\<not> shuffleQuestions (exam1 s)" and "p < length (questions (exam1 s))"
  shows "originalIndex (questionOrder1 s ! p) = int p
         \<and> shuffledQuestions1 s ! p = questions (exam1 s) ! p"
  using assms
  by (auto simp: fetchExam1_def shuffleArray_def Let_def nth_enumerate_eq
        split: option.splits)

lemma fetchExam2_keys:
  assumes "fetchExam2 exams subs eid uid perm = Inr s"
    and "p < length (questionOrder2 s)"
  shows "shuffledQuestions2 s ! p = questions (exam2 s) ! (questionOrder2 s ! p)"
  using assms
  by (auto simp: fetchExam2_def shuffleArray_def Let_def split: option.splits if_splits)

lemma fetchExam2_order:
  assumes "fetchExam2 exams subs eid uid perm = Inr s"
    and "shuffleQuestions (exam2 s)"
    and "\<forall>i\<in>set perm. i < length (questions (exam2 s))"
  shows "questionOrder2 s = perm"
  using assms
  by (auto simp: fetchExam2_def shuffleArray_def Let_def map_idI split: option.splits if_splits)

lemma handleAnswer2_records:
  assumes "p < length (questionOrder2 s)" and "questionOrder2 s ! p < length (answers2 s)"
  shows "answers2 (handleAnswer2 p k s) ! (questionOrder2 s ! p) = int k
         \<and> (\<forall>j. j \<noteq> questionOrder2 s ! p \<longrightarrow>
                answers2 (handleAnswer2 p k s) ! j = answers2 s ! j)"
  using assms by (simp add: handleAnswer2_def)

text \<open>
  C2. Claim: with shuffling, an answer picked at any presentation position is recorded
  under the question's original index, in both variants, also when two questions have
  the same text. The exam has two questions with the text \<open>Same\<close>, correct options 0
  and 1, and the permutation shows the second question first. The student picks
  option 1, the correct one, on the question shown first. The first variant maps both
  positions to original index 0, records the answer under key 0 and stores score 0;
  keyed by original index (key 1) the same selection scores 50, which is what the
  second variant stores.
\<close>

theorem C2_same_text_misfiled:
  "map_sum id (\<lambda>w. map originalIndex (questionOrder1 (latest1 w)))
     (enter1 [(''e'', exam_same_text)] [] ''e'' [1, 0]) = Inr [0, 0]
   \<and> map_sum id (\<lambda>w. map (\<lambda>d. (answers d, score d))
                       (log1 (clickConfirm1 ''e'' ''u'' (clickSubmit1 (clickOption1 0 1 w)))))
       (enter1 [(''e'', exam_same_text)] [] ''e'' [1, 0]) = Inr [([(0, 1)], Fin 0)]
   \<and> score1 exam_same_text (map_of [(1, 1)]) = Fin 50
   \<and> map_sum id (\<lambda>w. map (\<lambda>d. (answers d, score d))
                       (log2 (clickConfirm2 ''e'' ''u'' ''s1''
                               (clickSubmit2 (clickOption2 0 1 w)))))
       (enter2 [(''e'', exam_same_text)] [] ''e'' ''u'' [1, 0]) = Inr [([- 1, 1], Fin 50)]"
  by code_simp

section \<open>The countdown\<close>

text \<open>
  While more than one second is left and the student does nothing that changes
  \<open>timeLeft\<close>, a tick only counts down and renews the interval with the new render.
\<close>

lemma tick1_counting:
  assumes "interval1 w = Some (latest1 w)" and "1 < timeLeft1 (latest1 w)"
  shows "tick1 eid uid w =
           w\<lparr>latest1 := (latest1 w)\<lparr>timeLeft1 := timeLeft1 (latest1 w) - 1\<rparr>,
             interval1 := Some ((latest1 w)\<lparr>timeLeft1 := timeLeft1 (latest1 w) - 1\<rparr>)\<rparr>"
  using assms by (simp add: tick1_def effect1_def Let_def)

lemma ticks1_counting:
  assumes "interval1 w = Some (latest1 w)" and "int n < timeLeft1 (latest1 w)"
  shows "ticks1 n eid uid w =
           w\<lparr>latest1 := (latest1 w)\<lparr>timeLeft1 := timeLeft1 (latest1 w) - int n\<rparr>,
             interval1 := Some ((latest1 w)\<lparr>timeLeft1 := timeLeft1 (latest1 w) - int n\<rparr>)\<rparr>"
  using assms
proof (induction n arbitrary: w)
  case 0
  then show ?case by simp
next
  case (Suc n)
  have gt: "1 < timeLeft1 (latest1 w)" using Suc.prems(2) by simp
  let ?w = "tick1 eid uid w"
  have step: "?w = w\<lparr>latest1 := (latest1 w)\<lparr>timeLeft1 := timeLeft1 (latest1 w) - 1\<rparr>,
             interval1 := Some ((latest1 w)\<lparr>timeLeft1 := timeLeft1 (latest1 w) - 1\<rparr>)\<rparr>"
    by (rule tick1_counting [OF Suc.prems(1) gt])
  have a: "interval1 ?w = Some (latest1 ?w)" by (simp add: step)
  have b: "int n < timeLeft1 (latest1 ?w)" using Suc.prems(2) by (simp add: step)
  have "ticks1 (Suc n) eid uid w = ticks1 n eid uid ?w" by simp
  also have "\<dots> = ?w\<lparr>latest1 := (latest1 ?w)\<lparr>timeLeft1 := timeLeft1 (latest1 ?w) - int n\<rparr>,
             interval1 := Some ((latest1 ?w)\<lparr>timeLeft1 := timeLeft1 (latest1 ?w) - int n\<rparr>)\<rparr>"
    by (rule Suc.IH [OF a b])
  also have "\<dots> = w\<lparr>latest1 := (latest1 w)\<lparr>timeLeft1 := timeLeft1 (latest1 w) - int (Suc n)\<rparr>,
             interval1 := Some ((latest1 w)\<lparr>timeLeft1 := timeLeft1 (latest1 w) - int (Suc n)\<rparr>)\<rparr>"
    by (simp add: step algebra_simps)
  finally show ?case .
qed

lemma ticks1_last: "ticks1 (Suc n) eid uid w = tick1 eid uid (ticks1 n eid uid w)"
  by (induction n arbitrary: w) simp_all

lemma tick2_counting:
  assumes "interval2 w = Some (latest2 w)" and "1 < timeLeft2 (latest2 w)"
  shows "tick2 eid uid newId w =
           w\<lparr>latest2 := (latest2 w)\<lparr>timeLeft2 := timeLeft2 (latest2 w) - 1\<rparr>,
             interval2 := Some ((latest2 w)\<lparr>timeLeft2 := timeLeft2 (latest2 w) - 1\<rparr>)\<rparr>"
  using assms by (simp add: tick2_def effect2_def Let_def)

lemma ticks2_counting:
  assumes "interval2 w = Some (latest2 w)" and "int n < timeLeft2 (latest2 w)"
  shows "ticks2 n eid uid newId w =
           w\<lparr>latest2 := (latest2 w)\<lparr>timeLeft2 := timeLeft2 (latest2 w) - int n\<rparr>,
             interval2 := Some ((latest2 w)\<lparr>timeLeft2 := timeLeft2 (latest2 w) - int n\<rparr>)\<rparr>"
  using assms
proof (induction n arbitrary: w)
  case 0
  then show ?case by simp
next
  case (Suc n)
  have gt: "1 < timeLeft2 (latest2 w)" using Suc.prems(2) by simp
  let ?w = "tick2 eid uid newId w"
  have step: "?w = w\<lparr>latest2 := (latest2 w)\<lparr>timeLeft2 := timeLeft2 (latest2 w) - 1\<rparr>,
             interval2 := Some ((latest2 w)\<lparr>timeLeft2 := timeLeft2 (latest2 w) - 1\<rparr>)\<rparr>"
    by (rule tick2_counting [OF Suc.prems(1) gt])
  have a: "interval2 ?w = Some (latest2 ?w)" by (simp add: step)
  have b: "int n < timeLeft2 (latest2 ?w)" using Suc.prems(2) by (simp add: step)
  have "ticks2 (Suc n) eid uid newId w = ticks2 n eid uid newId ?w" by simp
  also have "\<dots> = ?w\<lparr>latest2 := (latest2 ?w)\<lparr>timeLeft2 := timeLeft2 (latest2 ?w) - int n\<rparr>,
             interval2 := Some ((latest2 ?w)\<lparr>timeLeft2 := timeLeft2 (latest2 ?w) - int n\<rparr>)\<rparr>"
    by (rule Suc.IH [OF a b])
  also have "\<dots> = w\<lparr>latest2 := (latest2 w)\<lparr>timeLeft2 := timeLeft2 (latest2 w) - int (Suc n)\<rparr>,
             interval2 := Some ((latest2 w)\<lparr>timeLeft2 := timeLeft2 (latest2 w) - int (Suc n)\<rparr>)\<rparr>"
    by (simp add: step algebra_simps)
  finally show ?case .
qed

lemma ticks2_last:
  "ticks2 (Suc n) eid uid newId w = tick2 eid uid newId (ticks2 n eid uid newId w)"
  by (induction n arbitrary: w) simp_all

text \<open>
  The interval exists from the start of an attempt with time on its clock, it is gone
  after the tick that finds at most one second left, and without it a tick does nothing.
\<close>

lemma start2_interval:
  "timeLeft2 s \<noteq> 0 \<Longrightarrow> interval2 (start2 subs s) = Some (latest2 (start2 subs s))"
  by (simp add: start2_def effect2_def)

lemma tick2_stopped: "interval2 w = None \<Longrightarrow> tick2 eid uid newId w = w"
  by (simp add: tick2_def)

lemma tick1_stopped: "interval1 w = None \<Longrightarrow> tick1 eid uid w = w"
  by (simp add: tick1_def)

lemma tick1_stops: "interval1 w = Some env \<Longrightarrow> timeLeft1 (latest1 w) \<le> 1 \<Longrightarrow>
    interval1 (tick1 eid uid w) = None"
  by (simp add: tick1_def effect1_def handleTimeUp1_def handleSubmit1_def Let_def)

lemma tick2_stops: "interval2 w = Some env \<Longrightarrow> timeLeft2 (latest2 w) \<le> 1 \<Longrightarrow>
    interval2 (tick2 eid uid newId w) = None"
  by (simp add: tick2_def effect2_def handleTimeUp2_def handleSubmit2_def Let_def
      split: sum.splits)

text \<open>
  The write of the last tick, and the attempt left alone: the timer writes exactly one
  Submission when it runs out, and ticks after that write nothing. For the first
  variant this is about an attempt that shows a question: on an exam without
  questions its render reads \<open>questionOrder[0].originalIndex\<close> and throws, and the
  component does not live to the last tick.
\<close>

lemma tick1_expiry_write:
  assumes "interval1 w = Some env" and "timeLeft1 (latest1 w) \<le> 1" and "\<not> submitting1 env"
  shows "log1 (tick1 eid uid w) = log1 w @ [submissionData1 eid uid env]"
  using assms by (simp add: tick1_def handleTimeUp1_def handleSubmit1_def Let_def)

lemma ticks1_add:
  "ticks1 (a + b) eid uid w = ticks1 b eid uid (ticks1 a eid uid w)"
  by (induction a arbitrary: w) simp_all

lemma ticks2_add:
  "ticks2 (a + b) eid uid newId w = ticks2 b eid uid newId (ticks2 a eid uid newId w)"
  by (induction a arbitrary: w) simp_all

lemma ticks1_stopped: "interval1 w = None \<Longrightarrow> ticks1 k eid uid w = w"
  by (induction k) (simp_all add: tick1_stopped)

lemma ticks2_stopped: "interval2 w = None \<Longrightarrow> ticks2 k eid uid newId w = w"
  by (induction k) (simp_all add: tick2_stopped)

lemma expiry_writes_once2:
  assumes "interval2 w = Some (latest2 w)" and "timeLeft2 (latest2 w) = int (Suc n)"
    and "score2 (exam2 (latest2 w)) (answers2 (latest2 w)) = Inr sc"
  shows "log2 (ticks2 (Suc n + k) eid uid newId w) =
           log2 w @ [submissionData2 eid uid ((latest2 w)\<lparr>timeLeft2 := 1\<rparr>) sc]"
proof -
  let ?s = "(latest2 w)\<lparr>timeLeft2 := 1\<rparr>"
  let ?w1 = "w\<lparr>latest2 := ?s, interval2 := Some ?s\<rparr>"
  have c: "ticks2 n eid uid newId w = ?w1"
    using ticks2_counting [OF assms(1), of n eid uid newId] assms(2) by simp
  let ?w2 = "tick2 eid uid newId ?w1"
  have l: "log2 ?w2 = log2 w @ [submissionData2 eid uid ?s sc]"
    using assms(3)
    by (simp add: tick2_def handleTimeUp2_def handleSubmit2_def effect2_def Let_def)
  have st: "interval2 ?w2 = None"
    by (rule tick2_stops [of _ ?s]) simp_all
  have "ticks2 (Suc n + k) eid uid newId w
          = ticks2 k eid uid newId (ticks2 (Suc n) eid uid newId w)"
    by (rule ticks2_add)
  also have "\<dots> = ticks2 k eid uid newId ?w2"
    by (simp only: ticks2_last c)
  also have "\<dots> = ?w2" by (rule ticks2_stopped [OF st])
  finally show ?thesis using l by simp
qed

lemma expiry_writes_once1:
  assumes "interval1 w = Some (latest1 w)" and "timeLeft1 (latest1 w) = int (Suc n)"
    and "\<not> submitting1 (latest1 w)" and "questionOrder1 (latest1 w) \<noteq> []"
  shows "log1 (ticks1 (Suc n + k) eid uid w) =
           log1 w @ [submissionData1 eid uid ((latest1 w)\<lparr>timeLeft1 := 1\<rparr>)]"
proof -
  let ?s = "(latest1 w)\<lparr>timeLeft1 := 1\<rparr>"
  let ?w1 = "w\<lparr>latest1 := ?s, interval1 := Some ?s\<rparr>"
  have c: "ticks1 n eid uid w = ?w1"
    using ticks1_counting [OF assms(1), of n eid uid] assms(2) by simp
  let ?w2 = "tick1 eid uid ?w1"
  have l: "log1 ?w2 = log1 w @ [submissionData1 eid uid ?s]"
    using assms(3) by (simp add: tick1_expiry_write)
  have st: "interval1 ?w2 = None"
    by (rule tick1_stops [of _ ?s]) simp_all
  have "ticks1 (Suc n + k) eid uid w = ticks1 k eid uid (ticks1 (Suc n) eid uid w)"
    by (rule ticks1_add)
  also have "\<dots> = ticks1 k eid uid ?w2"
    by (simp only: ticks1_last c)
  also have "\<dots> = ?w2" by (rule ticks1_stopped [OF st])
  finally show ?thesis using l by simp
qed

text \<open>
  C4. Claim: when the countdown reaches zero exactly one Submission write is triggered,
  also when a confirmed submit races the expiry, in both variants. The attempt has run
  59 of its 60 seconds without a write; the student confirms the submit dialog, and
  the last tick fires before the write has completed. In the second variant
  \<open>handleSubmit\<close> has no guard and \<open>addDoc\<close> is called twice: the collection holds two
  documents. In the first variant the guard of the interval's \<open>handleSubmit\<close> reads
  the \<open>submitting\<close> of the render one second old, which is still false, and \<open>setDoc\<close>
  is called twice as well.
\<close>

theorem C4_second_write:
  "map_sum id (\<lambda>w. (timeLeft2 (latest2 (ticks2 59 ''e'' ''u'' ''s0'' w)),
                     length (log2 (ticks2 59 ''e'' ''u'' ''s0'' w)),
                     map fst (submissions2
                       (tick2 ''e'' ''u'' ''s2''
                         (clickConfirm2 ''e'' ''u'' ''s1''
                           (clickSubmit2 (ticks2 59 ''e'' ''u'' ''s0'' w)))))))
     (enter2 [(''e'', exam_one_question)] [] ''e'' ''u'' []) = Inr (1, 0, [''s1'', ''s2''])
   \<and> map_sum id (\<lambda>w. (length (log1 (ticks1 59 ''e'' ''u'' w)),
                       length (log1
                         (tick1 ''e'' ''u''
                           (clickConfirm1 ''e'' ''u''
                             (clickSubmit1 (ticks1 59 ''e'' ''u'' w)))))))
       (enter1 [(''e'', exam_one_question)] [] ''e'' []) = Inr (0, 2)"
  by (simp add: enter1_def enter2_def fetchExam1_def fetchExam2_def getDoc_def
      exam_one_question_def mk_exam_def mk_question_def shuffleArray_def
      ticks1_counting ticks2_counting start1_def start2_def effect1_def effect2_def
      tick1_def tick2_def handleTimeUp1_def handleTimeUp2_def handleSubmit1_def
      handleSubmit2_def clickSubmit1_def clickSubmit2_def clickConfirm1_def
      clickConfirm2_def score2_def addDoc_def setDoc_def Let_def)

section \<open>Loading\<close>

text \<open>The second variant refuses exactly as the specification says, and enters otherwise.\<close>

lemma fetchExam2_NotFound:
  "getDoc exams eid = None \<Longrightarrow> fetchExam2 exams subs eid uid perm = Inl NotFound"
  by (simp add: fetchExam2_def)

lemma fetchExam2_NotPublished:
  "getDoc exams eid = Some e \<Longrightarrow> \<not> isPublished e \<Longrightarrow>
     fetchExam2 exams subs eid uid perm = Inl NotPublished"
  by (simp add: fetchExam2_def)

lemma fetchExam2_AlreadyAttempted:
  "getDoc exams eid = Some e \<Longrightarrow> isPublished e \<Longrightarrow> \<not> allowReattempts e \<Longrightarrow>
   (i, d) \<in> set subs \<Longrightarrow> examId d = eid \<Longrightarrow> studentId d = uid \<Longrightarrow>
     fetchExam2 exams subs eid uid perm = Inl AlreadyAttempted"
  by (auto simp: fetchExam2_def Let_def filter_empty_conv)

lemma fetchExam2_enters:
  "getDoc exams eid = Some e \<Longrightarrow> isPublished e \<Longrightarrow>
   allowReattempts e \<or> (\<forall>(i, d) \<in> set subs. \<not> (examId d = eid \<and> studentId d = uid)) \<Longrightarrow>
     \<exists>s. fetchExam2 exams subs eid uid perm = Inr s \<and> exam2 s = e
          \<and> timeLeft2 s = int (timeLimit e) * 60"
  by (auto simp: fetchExam2_def Let_def filter_empty_conv)

text \<open>The first variant enters whenever the exam document exists.\<close>

lemma fetchExam1_enters:
  "getDoc exams eid = Some e \<Longrightarrow>
     \<exists>s. fetchExam1 exams eid perm = Inr s \<and> exam1 s = e
          \<and> timeLeft1 s = int (timeLimit e) * 60"
  by (simp add: fetchExam1_def Let_def)

text \<open>
  C5. Claim: the load fails with \<open>NotFound\<close>, \<open>NotPublished\<close> or \<open>AlreadyAttempted\<close> as
  the case may be, in both variants. The first variant checks existence only: it
  enters an unpublished exam, timer seeded to 60 seconds, and it enters an exam
  without reattempts that the second variant refuses because of an earlier Submission.
\<close>

theorem C5_first_variant_enters:
  "map_sum id timeLeft1 (fetchExam1 [(''e'', exam_unpublished)] ''e'' []) = Inr 60
   \<and> fetchExam2 [(''e'', exam_unpublished)] ([] :: (int list, nat) submission2 collection)
        ''e'' ''u'' [] = Inl NotPublished
   \<and> map_sum id timeLeft1 (fetchExam1 [(''e'', exam_one_question)] ''e'' []) = Inr 60
   \<and> fetchExam2 [(''e'', exam_one_question)] [(''s1'', earlier_submission)] ''e'' ''u'' []
       = Inl AlreadyAttempted
   \<and> fetchExam1 [(''e'', exam_one_question)] ''x'' [] = Inl NotFound"
  by code_simp

section \<open>The write target\<close>

lemma getDoc_setDoc:
  "getDoc (setDoc i d c) j = (if j = i then Some d else getDoc c j)"
  by (simp add: getDoc_def setDoc_def update_conv')

lemma getDoc_fresh: "newId \<notin> fst ` set c \<Longrightarrow> getDoc c newId = None"
  by (simp add: getDoc_def map_of_eq_None_iff)

lemma getDoc_addDoc:
  assumes "newId \<notin> fst ` set c"
  shows "getDoc (addDoc newId d c) j = (if j = newId then Some d else getDoc c j)"
proof (cases "j = newId")
  case True
  then show ?thesis
    using getDoc_fresh [OF assms] by (simp add: getDoc_def addDoc_def map_add_def)
next
  case False
  then show ?thesis
    by (simp add: getDoc_def addDoc_def map_add_def split: option.splits)
qed

text \<open>
  What a finalize does to the collection. In the second variant (\<open>addDoc\<close>, under an
  id the collection does not hold) it adds one document and leaves every document of
  the collection as it was. In the first variant (\<open>setDoc\<close> under \<open>uid_examId\<close>) it
  replaces the student's document for this exam and leaves every other document as it
  was.
\<close>

lemma finalize_store:
  assumes "newId \<notin> fst ` set (submissions2 w2)"
  shows "getDoc (submissions2 w2) newId = None
     \<and> getDoc (submissions2 (handleSubmit2 eid uid newId env2 w2)) i =
         (case score2 (exam2 env2) (answers2 env2) of
            Inl err \<Rightarrow> getDoc (submissions2 w2) i
          | Inr sc \<Rightarrow> if i = newId then Some (submissionData2 eid uid env2 sc)
                      else getDoc (submissions2 w2) i)
     \<and> getDoc (submissions1 (handleSubmit1 eid uid env1 w1)) j =
         (if j = uid @ ''_'' @ eid \<and> \<not> submitting1 env1
          then Some (submissionData1 eid uid env1)
          else getDoc (submissions1 w1) j)"
  using getDoc_fresh [OF assms] getDoc_addDoc [OF assms]
  by (simp add: handleSubmit2_def handleSubmit1_def getDoc_setDoc Let_def split: sum.splits)

lemma finalize_store_example:
  "''s2'' \<notin> fst ` set (submissions2 world2_reattempt)
   \<and> getDoc (submissions2 world2_reattempt) ''s2'' = None
   \<and> getDoc (submissions2 (handleSubmit2 ''e'' ''u'' ''s2'' state2_reattempt world2_reattempt))
        ''s1'' = Some earlier_submission
   \<and> map_option score
        (getDoc (submissions2 (handleSubmit2 ''e'' ''u'' ''s2'' state2_reattempt world2_reattempt))
           ''s2'') = Some (Fin 100)
   \<and> map_option answers (getDoc (submissions1 world1_reattempt) ''u_e'') = Some [(0, 0)]
   \<and> map_option answers
        (getDoc (submissions1 (handleSubmit1 ''e'' ''u'' state1_reattempt world1_reattempt))
           ''u_e'') = Some [(0, 1)]
   \<and> getDoc (submissions1 (handleSubmit1 ''e'' ''u'' state1_reattempt world1_reattempt))
        ''v_e'' = Some (earlier_submission1 ''v'')"
proof -
  have h: "''s2'' \<notin> fst ` set (submissions2 world2_reattempt)"
    by (simp add: world2_reattempt_def start2_def)
  have s: "score2 (exam2 state2_reattempt) (answers2 state2_reattempt) = Inr (Fin 100)"
    by code_simp
  have old: "getDoc (submissions2 world2_reattempt) ''s1'' = Some earlier_submission"
    by (simp add: world2_reattempt_def start2_def getDoc_def)
  have n: "\<not> submitting1 state1_reattempt" by (simp add: state1_reattempt_def)
  have old1: "getDoc (submissions1 world1_reattempt) ''v_e'' = Some (earlier_submission1 ''v'')"
    and old2: "map_option answers (getDoc (submissions1 world1_reattempt) ''u_e'') = Some [(0, 0)]"
    by (simp_all add: world1_reattempt_def start1_def getDoc_def earlier_submission1_def)
  show ?thesis
    using h s old n old1 old2
      finalize_store [OF h, of "''e''" "''u''" state2_reattempt "''s1''"
        state1_reattempt world1_reattempt "''u_e''"]
      finalize_store [OF h, of "''e''" "''u''" state2_reattempt "''s2''"
        state1_reattempt world1_reattempt "''v_e''"]
    by (simp add: submissionData2_def submissionData1_def state1_reattempt_def)
qed

text \<open>
  C6. Claim: a Submission is never mutated by the student after its creation; a
  reattempt creates a new Submission document and does not overwrite the earlier one.
  The exam allows reattempts. In the first variant the student's second attempt
  writes with \<open>setDoc\<close> under the same id \<open>uid_examId\<close>: after it the collection still
  holds one document, with the answers and the score of the second attempt, and the
  first attempt's answers and score 100 are gone. In the second variant the same two
  attempts leave two documents, numbered 1 and 2.
\<close>

theorem C6_reattempt_overwrites:
  "map_sum id (\<lambda>w. map (\<lambda>(i, d). (i, answers d, score d)) (submissions1 w)) first_attempt1
     = Inr [(''u_e'', [(0, 0)], Fin 100)]
   \<and> map_sum id (\<lambda>w. map (\<lambda>(i, d). (i, answers d, score d)) (submissions1 w)) second_attempt1
     = Inr [(''u_e'', [(0, 1)], Fin 0)]
   \<and> map_sum id (\<lambda>w. map (\<lambda>(i, d). (i, answers d, score d, attemptNumber d))
                       (submissions2 w)) first_attempt2
     = Inr [(''s1'', [0], Fin 100, 1)]
   \<and> map_sum id (\<lambda>w. map (\<lambda>(i, d). (i, answers d, score d, attemptNumber d))
                       (submissions2 w)) second_attempt2
     = Inr [(''s1'', [0], Fin 100, 1), (''s2'', [1], Fin 0, 2)]"
  by code_simp

section \<open>The auto-submitted flag\<close>

text \<open>
  An interval exists only for a render with time left, so a document built from the
  interval's render never has the flag; a click on Confirm before expiry is served by
  a render with time left as well.
\<close>

lemma effect1_flag:
  "effect1 s = Some env \<Longrightarrow> isAutoSubmitted (submissionData1 eid uid env) = False"
  by (auto simp: effect1_def submissionData1_def split: if_splits)

lemma expiry_flag1:
  assumes "interval1 w = Some (latest1 w)" and "timeLeft1 (latest1 w) = int (Suc n)"
    and "\<not> submitting1 (latest1 w)" and "questionOrder1 (latest1 w) \<noteq> []"
  shows "map isAutoSubmitted (log1 (ticks1 (Suc n + k) eid uid w)) =
           map isAutoSubmitted (log1 w) @ [False]"
proof -
  have "log1 (ticks1 (Suc n + k) eid uid w) =
          log1 w @ [submissionData1 eid uid ((latest1 w)\<lparr>timeLeft1 := 1\<rparr>)]"
    by (rule expiry_writes_once1 [OF assms])
  then show ?thesis by (simp add: submissionData1_def)
qed

text \<open>
  C7. Claim: the Submission written on timer expiry has \<open>isAutoSubmitted = true\<close>, the
  one written by a confirmed submit before expiry has it false. An attempt at a
  one-minute exam is left to run out: the sixtieth tick writes the Submission, built
  by the \<open>handleSubmit\<close> of the render in which \<open>timeLeft\<close> was 1, with
  \<open>isAutoSubmitted = (1 === 0)\<close>, false. The confirmed submit after one second is
  flagged false, as claimed.
\<close>

theorem C7_expiry_not_flagged:
  "map_sum id (\<lambda>w. (length (log1 (ticks1 59 ''e'' ''u'' w)),
                     map (\<lambda>d. (isAutoSubmitted d, timeSpent d))
                         (log1 (tick1 ''e'' ''u'' (ticks1 59 ''e'' ''u'' w)))))
     (enter1 [(''e'', exam_one_question)] [] ''e'' []) = Inr (0, [(False, 59)])
   \<and> map_sum id (\<lambda>w. map isAutoSubmitted
                       (log1 (clickConfirm1 ''e'' ''u'' (clickSubmit1 (tick1 ''e'' ''u'' w)))))
       (enter1 [(''e'', exam_one_question)] [] ''e'' []) = Inr [False]"
  by (simp add: enter1_def fetchExam1_def getDoc_def exam_one_question_def mk_exam_def
      mk_question_def shuffleArray_def ticks1_counting start1_def effect1_def
      tick1_def handleTimeUp1_def handleSubmit1_def submissionData1_def
      clickSubmit1_def clickConfirm1_def Let_def)

section \<open>Passed or failed\<close>

text \<open>For a passing score other than 0 the label follows the comparison.\<close>

lemma classification_truthy:
  "truthy p \<Longrightarrow> (classification sc (Some p) = ''Passed'') = js_ge sc p"
  by (simp add: classification_def or_default_def)

text \<open>
  C8. Claim: whenever the exam has a passing score, the submission is \<open>Passed\<close> exactly
  when its score is at least the passing score. The form accepts passing score 0
  (\<open>min="0"\<close>), and \<open>passingScore || 60\<close> then takes 60: a score of 30 reaches the
  passing score 0 and is labelled \<open>Failed\<close>. At passing score 60 the boundary is as
  claimed.
\<close>

theorem C8_zero_passing_score:
  "classification (Fin 30) (Some (Fin 0)) = ''Failed'' \<and> js_ge (Fin 30) (Fin 0)
   \<and> matches_passed (Fin 30) (Fin 0)
   \<and> classification (Fin 60) (Some (Fin 60)) = ''Passed''
   \<and> classification (Fin 59) (Some (Fin 60)) = ''Failed''"
  by code_simp

section \<open>Exam authoring\<close>

lemma trim_Nil: "trim [] = []"
  by (simp add: trim_def)

lemma validate_questions_rejects:
  assumes "\<exists>q\<in>set qs. trim (fq_question q) = [] \<or> (\<exists>opt\<in>set (fq_options q). trim opt = [])"
  shows "validate_questions i qs \<noteq> None"
  using assms
proof (induction qs arbitrary: i)
  case Nil
  then show ?case by simp
next
  case (Cons q qs)
  then show ?case by (auto simp: list_ex_iff)
qed

lemma validate_questions_not_Created: "validate_questions i qs \<noteq> Some Created"
  by (induction qs arbitrary: i) auto

lemma validate_questions_not_NotLoggedIn: "validate_questions i qs \<noteq> Some NotLoggedIn"
  by (induction qs arbitrary: i) auto

text \<open>A document is added only together with the success toast.\<close>

lemma createExam_writes_only_on_success:
  "fst (createExam currentUser f newId exams) \<noteq> Created \<Longrightarrow>
     snd (createExam currentUser f newId exams) = exams"
  by (auto simp: createExam_def split: option.splits)

text \<open>
  C9. Whenever the title, the time limit or the passing score is missing, or there is
  no question, or some question has an empty text or an empty option, \<open>handleSubmit\<close>
  of \<open>CreateExam\<close> reports an error and leaves the \<open>exams\<close> collection unchanged;
  for a signed-in teacher the error is one of the validation messages.
\<close>

theorem C9_invalid_form_writes_nothing:
  assumes "ed_title f = [] \<or> ed_timeLimit f = [] \<or> ed_passingScore f = []
           \<or> ed_questions f = []
           \<or> (\<exists>q\<in>set (ed_questions f).
                 fq_question q = [] \<or> (\<exists>opt\<in>set (fq_options q). opt = []))"
  shows "snd (createExam currentUser f newId exams) = exams
         \<and> fst (createExam currentUser f newId exams) \<noteq> Created
         \<and> (fst (createExam currentUser f newId exams) = NotLoggedIn) = (currentUser = None)"
proof (cases currentUser)
  case None
  then show ?thesis by (simp add: createExam_def)
next
  case (Some uid)
  show ?thesis
  proof (cases "ed_title f = [] \<or> ed_timeLimit f = [] \<or> ed_passingScore f = []
                \<or> ed_questions f = []")
    case True
    then show ?thesis using Some by (auto simp: createExam_def)
  next
    case False
    with assms have "\<exists>q\<in>set (ed_questions f).
        trim (fq_question q) = [] \<or> (\<exists>opt\<in>set (fq_options q). trim opt = [])"
      using trim_Nil by metis
    then have "validate_questions 0 (ed_questions f) \<noteq> None"
      by (rule validate_questions_rejects)
    then obtain err where "validate_questions 0 (ed_questions f) = Some err" by blast
    moreover have "err \<noteq> Created"
      using calculation validate_questions_not_Created by blast
    moreover have "err \<noteq> NotLoggedIn"
      using calculation(1) validate_questions_not_NotLoggedIn by blast
    ultimately show ?thesis using Some False by (simp add: createExam_def)
  qed
qed

theorem C9_invalid_form_writes_nothing_witness:
  "(\<exists>q\<in>set (ed_questions form_empty_option). \<exists>opt\<in>set (fq_options q). opt = [])
   \<and> snd (createExam (Some ''teacher'') form_empty_option ''x1'' []) = []
   \<and> fst (createExam (Some ''teacher'') form_empty_option ''x1'' []) \<noteq> Created
   \<and> fst (createExam (Some ''teacher'') form_empty_option ''x1'' []) \<noteq> NotLoggedIn"
proof -
  have h: "\<exists>q\<in>set (ed_questions form_empty_option). \<exists>opt\<in>set (fq_options q). opt = []"
    by (simp add: form_empty_option_def)
  then have "ed_title form_empty_option = [] \<or> ed_timeLimit form_empty_option = []
      \<or> ed_passingScore form_empty_option = [] \<or> ed_questions form_empty_option = []
      \<or> (\<exists>q\<in>set (ed_questions form_empty_option).
            fq_question q = [] \<or> (\<exists>opt\<in>set (fq_options q). opt = []))"
    by blast
  from C9_invalid_form_writes_nothing [OF this, of "Some ''teacher''" "''x1''" "[]"] h
  show ?thesis by simp
qed

section \<open>Grading\<close>

lemma clamp_in_range:
  "in_range (or_default (Some (Math_min (Math_max0 x) (of_nat m))) (Fin 0)) m"
  by (cases x) (auto simp: in_range_def or_default_def)

lemma updatedQuestions_nth:
  assumes "i < length gqs"
  shows "gq_score (updatedQuestions gqs g ! i) =
           (if gq_type (gqs ! i) = ''subjective'' then grade_or_0 g i else gq_score (gqs ! i))"
  using assms by (simp add: updatedQuestions_def nth_enumerate_eq)

lemma recorded_grade:
  "or_default (Some (Math_min (Math_max0 x) (of_nat m))) (Fin 0) =
     (case x of
        NaN \<Rightarrow> Fin 0
      | PosInf \<Rightarrow> Fin (of_nat m)
      | NegInf \<Rightarrow> Fin 0
      | Fin r \<Rightarrow> Fin (if r < 0 then 0 else if of_nat m < r then of_nat m else r))"
  by (cases x) (auto simp: or_default_def max_def min_def)

lemma updatedQuestions_other:
  assumes "j < length gqs" and "j \<noteq> i"
  shows "updatedQuestions gqs (grades(i \<mapsto> v)) ! j = updatedQuestions gqs grades ! j"
  using assms by (simp add: updatedQuestions_def nth_enumerate_eq grade_or_0_def)

text \<open>
  C10. When the teacher edits the grade of question \<open>questionIndex\<close>, a finite input
  \<open>r\<close> is stored as 0 if negative, as the question's \<open>maxPoints\<close> if above it, and
  unchanged in between. The grade \<open>handleSubmitGrades\<close> then records for a subjective
  question is that same clamped number: 0 for a negative input, \<open>maxPoints\<close> for an
  input above it, the input itself in between, and for the inputs that are not finite
  \<open>maxPoints\<close> for \<open>Infinity\<close>, 0 for \<open>-Infinity\<close> and 0 for \<open>NaN\<close>; it always lies
  between 0 and \<open>maxPoints\<close>. The records of the other questions are what they would
  have been without the edit.
\<close>

theorem C10_grade_clamped:
  assumes "questionIndex < length gqs"
  shows "\<exists>g. handleGradeChange gqs questionIndex x grades = Inr g
     \<and> (\<forall>r. x = Fin r \<longrightarrow>
            g questionIndex =
              Some (Fin (if r < 0 then 0
                         else if of_nat (maxPoints (gqs ! questionIndex)) < r
                              then of_nat (maxPoints (gqs ! questionIndex)) else r)))
     \<and> (gq_type (gqs ! questionIndex) = ''subjective'' \<longrightarrow>
            in_range (gq_score (updatedQuestions gqs g ! questionIndex))
                     (maxPoints (gqs ! questionIndex))
            \<and> gq_score (updatedQuestions gqs g ! questionIndex) =
                (case x of
                   NaN \<Rightarrow> Fin 0
                 | PosInf \<Rightarrow> Fin (of_nat (maxPoints (gqs ! questionIndex)))
                 | NegInf \<Rightarrow> Fin 0
                 | Fin r \<Rightarrow>
                     Fin (if r < 0 then 0
                          else if of_nat (maxPoints (gqs ! questionIndex)) < r
                               then of_nat (maxPoints (gqs ! questionIndex)) else r)))
     \<and> (\<forall>j. j < length gqs \<and> j \<noteq> questionIndex \<longrightarrow>
            updatedQuestions gqs g ! j = updatedQuestions gqs grades ! j)"
proof -
  let ?m = "maxPoints (gqs ! questionIndex)"
  let ?v = "Math_min (Math_max0 x) (of_nat ?m)"
  let ?g = "grades(questionIndex \<mapsto> ?v)"
  have 1: "handleGradeChange gqs questionIndex x grades = Inr ?g"
    using assms by (simp add: handleGradeChange_def)
  have 2: "\<forall>r. x = Fin r \<longrightarrow>
            ?g questionIndex =
              Some (Fin (if r < 0 then 0 else if of_nat ?m < r then of_nat ?m else r))"
    by (auto simp: max_def min_def)
  have 3: "gq_type (gqs ! questionIndex) = ''subjective'' \<longrightarrow>
            in_range (gq_score (updatedQuestions gqs ?g ! questionIndex)) ?m"
    using clamp_in_range [of x ?m]
    by (simp add: updatedQuestions_nth [OF assms] grade_or_0_def)
  have 4: "gq_type (gqs ! questionIndex) = ''subjective'' \<longrightarrow>
            gq_score (updatedQuestions gqs ?g ! questionIndex) =
              (case x of
                 NaN \<Rightarrow> Fin 0
               | PosInf \<Rightarrow> Fin (of_nat ?m)
               | NegInf \<Rightarrow> Fin 0
               | Fin r \<Rightarrow> Fin (if r < 0 then 0 else if of_nat ?m < r then of_nat ?m else r))"
    using recorded_grade [of x ?m]
    by (simp add: updatedQuestions_nth [OF assms] grade_or_0_def)
  have 5: "\<forall>j. j < length gqs \<and> j \<noteq> questionIndex \<longrightarrow>
            updatedQuestions gqs ?g ! j = updatedQuestions gqs grades ! j"
    by (simp add: updatedQuestions_other)
  from 1 2 3 4 5 show ?thesis by blast
qed

theorem C10_grade_clamped_witness:
  "1 < length graded_sample
   \<and> gq_type (graded_sample ! 1) = ''subjective''
   \<and> (\<exists>g. handleGradeChange graded_sample 1 (Fin (- 3)) Map.empty = Inr g
          \<and> g 1 = Some (Fin 0)
          \<and> in_range (gq_score (updatedQuestions graded_sample g ! 1)) 5
          \<and> gq_score (updatedQuestions graded_sample g ! 1) = Fin 0
          \<and> updatedQuestions graded_sample g ! 0 = updatedQuestions graded_sample Map.empty ! 0)
   \<and> (\<exists>g. handleGradeChange graded_sample 1 (Fin 9) Map.empty = Inr g
          \<and> g 1 = Some (Fin 5)
          \<and> in_range (gq_score (updatedQuestions graded_sample g ! 1)) 5
          \<and> gq_score (updatedQuestions graded_sample g ! 1) = Fin 5)
   \<and> (\<exists>g. handleGradeChange graded_sample 1 (Fin 4) Map.empty = Inr g
          \<and> g 1 = Some (Fin 4)
          \<and> gq_score (updatedQuestions graded_sample g ! 1) = Fin 4)
   \<and> (\<exists>g. handleGradeChange graded_sample 1 NaN Map.empty = Inr g
          \<and> in_range (gq_score (updatedQuestions graded_sample g ! 1)) 5
          \<and> gq_score (updatedQuestions graded_sample g ! 1) = Fin 0)"
proof -
  have h: "1 < length graded_sample" by (simp add: graded_sample_def)
  have t: "gq_type (graded_sample ! 1) = ''subjective''"
    and m: "maxPoints (graded_sample ! 1) = 5"
    by (simp_all add: graded_sample_def)
  have o: "0 < length graded_sample \<and> (0::nat) \<noteq> 1"
    by (simp add: graded_sample_def)
  from C10_grade_clamped [OF h, of "Fin (- 3)" Map.empty] t m o
  have a: "\<exists>g. handleGradeChange graded_sample 1 (Fin (- 3)) Map.empty = Inr g
          \<and> g 1 = Some (Fin 0)
          \<and> in_range (gq_score (updatedQuestions graded_sample g ! 1)) 5
          \<and> gq_score (updatedQuestions graded_sample g ! 1) = Fin 0
          \<and> updatedQuestions graded_sample g ! 0 = updatedQuestions graded_sample Map.empty ! 0"
    by auto
  from C10_grade_clamped [OF h, of "Fin 9" Map.empty] t m
  have b: "\<exists>g. handleGradeChange graded_sample 1 (Fin 9) Map.empty = Inr g
          \<and> g 1 = Some (Fin 5)
          \<and> in_range (gq_score (updatedQuestions graded_sample g ! 1)) 5
          \<and> gq_score (updatedQuestions graded_sample g ! 1) = Fin 5"
    by auto
  from C10_grade_clamped [OF h, of "Fin 4" Map.empty] t m
  have c: "\<exists>g. handleGradeChange graded_sample 1 (Fin 4) Map.empty = Inr g
          \<and> g 1 = Some (Fin 4)
          \<and> gq_score (updatedQuestions graded_sample g ! 1) = Fin 4"
    by auto
  from C10_grade_clamped [OF h, of NaN Map.empty] t m
  have d: "\<exists>g. handleGradeChange graded_sample 1 NaN Map.empty = Inr g
          \<and> in_range (gq_score (updatedQuestions graded_sample g ! 1)) 5
          \<and> gq_score (updatedQuestions graded_sample g ! 1) = Fin 0"
    by auto
  from h t a b c d show ?thesis by blast
qed

end
